theory Spec2Isabelle
  imports Complex_Main
begin

section \<open>Python strings\<close>

text \<open>
  A Python \<^verbatim>\<open>str\<close> is a HOL \<^typ>\<open>string\<close>, one \<^typ>\<open>char\<close> per character, so
  that \<^verbatim>\<open>len\<close> is \<^const>\<open>length\<close>. The model follows Python on the ASCII characters:
  case mapping, white space (\<^verbatim>\<open>str.strip\<close>, \<^verbatim>\<open>\s\<close>), digits (\<^verbatim>\<open>\d\<close>,
  \<^verbatim>\<open>str.isdigit\<close>) and word characters (\<^verbatim>\<open>\w\<close>). The two characters beyond
  ASCII that \<^verbatim>\<open>main.py\<close> writes in its own literals, the bullet U+2022 and the em
  dash U+2014, stand at the codes 0x95 and 0x97; every code from 128 on is a symbol
  that is no white space, digit, letter or word character. Text with other characters
  beyond ASCII (accented letters, Unicode spaces and digits) is outside the model.
\<close>

definition is_space :: "char \<Rightarrow> bool" where
  "is_space c \<longleftrightarrow>
     c \<in> set [CHR 0x09, CHR 0x0A, CHR 0x0B, CHR 0x0C, CHR 0x0D,
               CHR 0x1C, CHR 0x1D, CHR 0x1E, CHR 0x1F, CHR 0x20]"

definition is_digit :: "char \<Rightarrow> bool" where
  "is_digit c \<longleftrightarrow> c \<in> set ''0123456789''"

definition is_upper :: "char \<Rightarrow> bool" where
  "is_upper c \<longleftrightarrow> c \<in> set ''ABCDEFGHIJKLMNOPQRSTUVWXYZ''"

definition is_lower :: "char \<Rightarrow> bool" where
  "is_lower c \<longleftrightarrow> c \<in> set ''abcdefghijklmnopqrstuvwxyz''"

definition is_alpha :: "char \<Rightarrow> bool" where
  "is_alpha c \<longleftrightarrow> is_upper c \<or> is_lower c"

definition is_word :: "char \<Rightarrow> bool" where
  "is_word c \<longleftrightarrow> is_alpha c \<or> is_digit c \<or> c = CHR ''_''"

definition bullet :: char where
  "bullet = CHR 0x95"

definition em_dash :: char where
  "em_dash = CHR 0x97"

definition lower_char :: "char \<Rightarrow> char" where
  "lower_char c =
     (case map_of (zip ''ABCDEFGHIJKLMNOPQRSTUVWXYZ'' ''abcdefghijklmnopqrstuvwxyz'') c of
        Some d \<Rightarrow> d
      | None \<Rightarrow> c)"

definition lower :: "string \<Rightarrow> string" where
  "lower s = map lower_char s"

definition strip :: "string \<Rightarrow> string" where
  "strip s = rev (dropWhile is_space (rev (dropWhile is_space s)))"

text \<open>\<^verbatim>\<open>s.replace(c, "")\<close> for a one-character \<^verbatim>\<open>c\<close>.\<close>

definition remove_char :: "char \<Rightarrow> string \<Rightarrow> string" where
  "remove_char c s = filter (\<lambda>x. x \<noteq> c) s"

fun startswith :: "string \<Rightarrow> string \<Rightarrow> bool" where
  "startswith s [] = True"
| "startswith [] (p # ps) = False"
| "startswith (c # cs) (p # ps) = (c = p \<and> startswith cs ps)"

text \<open>\<^verbatim>\<open>sub in s\<close>.\<close>

fun contains :: "string \<Rightarrow> string \<Rightarrow> bool" where
  "contains [] sub = (sub = [])"
| "contains (c # cs) sub = (startswith (c # cs) sub \<or> contains cs sub)"

text \<open>
  \<^verbatim>\<open>s.count(sub)\<close>: the occurrences of \<^verbatim>\<open>sub\<close> counted from the left without
  overlap. The source counts literals only, none of them empty.
\<close>

function count :: "string \<Rightarrow> string \<Rightarrow> nat" where
  "count [] sub = 0"
| "count (c # cs) sub =
     (if sub \<noteq> [] \<and> startswith (c # cs) sub
      then 1 + count (drop (length sub) (c # cs)) sub
      else count cs sub)"
  by pat_completeness auto
termination
  by (relation "measure (\<lambda>(s, sub). length s)") (auto simp: neq_Nil_conv)

text \<open>
  \<^verbatim>\<open>s.split(sep)\<close> with a separator: the pieces between the occurrences of
  \<^verbatim>\<open>sep\<close>, found from the left without overlap; a string without the separator (the
  empty string too) is its own single piece. Python raises \<^verbatim>\<open>ValueError\<close> for an
  empty separator; the source splits at the literals \<^verbatim>\<open>"\n"\<close>, \<^verbatim>\<open>". "\<close> and
  \<^verbatim>\<open>","\<close> only.
\<close>

function split :: "string \<Rightarrow> string \<Rightarrow> string list" where
  "split [] sep = [[]]"
| "split (c # cs) sep =
     (if sep \<noteq> [] \<and> startswith (c # cs) sep
      then [] # split (drop (length sep) (c # cs)) sep
      else (case split cs sep of
              [] \<Rightarrow> [[c]]
            | p # ps \<Rightarrow> (c # p) # ps))"
  by pat_completeness auto
termination
  by (relation "measure (\<lambda>(s, sep). length s)") (auto simp: neq_Nil_conv)

fun join :: "string \<Rightarrow> string list \<Rightarrow> string" where
  "join sep [] = []"
| "join sep [p] = p"
| "join sep (p # q # ps) = p @ sep @ join sep (q # ps)"

text \<open>\<^verbatim>\<open>s.isdigit()\<close>: not empty and digits only.\<close>

definition isdigit :: "string \<Rightarrow> bool" where
  "isdigit s \<longleftrightarrow> s \<noteq> [] \<and> list_all is_digit s"

text \<open>\<^verbatim>\<open>list(dict.fromkeys(xs))\<close>: the first occurrence of every element, in order.\<close>

definition fromkeys :: "'a list \<Rightarrow> 'a list" where
  "fromkeys xs = rev (remdups (rev xs))"

text \<open>
  \<^verbatim>\<open>". ".join(text.split(". ")[:n]) + "."\<close>, the cut to the first \<open>n\<close> sentences
  that the source writes in three places.
\<close>

definition first_sentences :: "nat \<Rightarrow> string \<Rightarrow> string" where
  "first_sentences n text = join ''. '' (take n (split text ''. '')) @ ''.''"

section \<open>The regular expressions of the sanitizer\<close>

text \<open>
  Every regular expression of \<^verbatim>\<open>main.py\<close> is a matcher written out by hand. A matcher
  of a pattern at the head of a string returns the length of the match. Where the
  pattern has a greedy repetition (\<^verbatim>\<open>\s*\<close>, \<^verbatim>\<open>\d+\<close>), the character after
  the repetition is outside the repeated class, so the longest repetition is the only
  one that can match, and \<^const>\<open>takeWhile\<close> and \<^const>\<open>dropWhile\<close> compute it.
\<close>

text \<open>\<^verbatim>\<open>\d{4}-\d{2}-\d{2}\<close> at the head of \<open>s\<close>.\<close>

definition match_date :: "string \<Rightarrow> nat option" where
  "match_date s =
     (if 10 \<le> length s \<and> list_all is_digit (take 4 s) \<and> s ! 4 = CHR ''-''
         \<and> list_all is_digit (take 2 (drop 5 s)) \<and> s ! 7 = CHR ''-''
         \<and> list_all is_digit (take 2 (drop 8 s))
      then Some 10 else None)"

text \<open>\<^verbatim>\<open>Main\s*-\s*(?:Curry|Biryani)\<close> at the head of \<open>s\<close>.\<close>

definition match_main :: "string \<Rightarrow> nat option" where
  "match_main s =
     (if startswith s ''Main'' then
        (let r1 = dropWhile is_space (drop 4 s) in
         if startswith r1 ''-'' then
           (let r2 = dropWhile is_space (drop 1 r1) in
            if startswith r2 ''Curry'' then Some (length s - length r2 + 5)
            else if startswith r2 ''Biryani'' then Some (length s - length r2 + 7)
            else None)
         else None)
      else None)"

text \<open>\<^verbatim>\<open>\d+\.\d+\<close> at the head of \<open>s\<close>.\<close>

definition match_decimal :: "string \<Rightarrow> nat option" where
  "match_decimal s =
     (let d1 = takeWhile is_digit s; r = dropWhile is_digit s in
      if d1 \<noteq> [] \<and> startswith r ''.'' then
        (let d2 = takeWhile is_digit (drop 1 r) in
         if d2 \<noteq> [] then Some (length d1 + 1 + length d2) else None)
      else None)"

text \<open>
  \<^verbatim>\<open>raw_csv_pattern = r"\d{4}-\d{2}-\d{2}|Main\s*-\s*(?:Curry|Biryani)|^\d+\.\d+"\<close>
  at the head of \<open>s\<close>: the alternatives in their order. The pattern is compiled without
  \<^verbatim>\<open>re.MULTILINE\<close>, so \<^verbatim>\<open>^\<close> holds at the start of the text only
  (\<open>at_start\<close>).
\<close>

definition match_raw_csv :: "bool \<Rightarrow> string \<Rightarrow> nat option" where
  "match_raw_csv at_start s =
     (case match_date s of
        Some n \<Rightarrow> Some n
      | None \<Rightarrow>
          (case match_main s of
             Some n \<Rightarrow> Some n
           | None \<Rightarrow> if at_start then match_decimal s else None))"

lemma match_raw_csv_pos: "match_raw_csv b s = Some n \<Longrightarrow> 0 < n"
  by (auto simp: match_raw_csv_def match_date_def match_main_def match_decimal_def Let_def
           split: option.splits if_splits)

text \<open>
  \<^verbatim>\<open>re.findall(raw_csv_pattern, text)\<close>: the matches from the left, the scan going on
  behind each match, and one character further where nothing matches.
\<close>

function findall_raw_csv :: "bool \<Rightarrow> string \<Rightarrow> string list" where
  "findall_raw_csv at_start [] = []"
| "findall_raw_csv at_start (c # cs) =
     (case match_raw_csv at_start (c # cs) of
        Some n \<Rightarrow> take n (c # cs) # findall_raw_csv False (drop n (c # cs))
      | None \<Rightarrow> findall_raw_csv False cs)"
  by pat_completeness auto
termination findall_raw_csv
  by (relation "measure (\<lambda>(b, s). length s)") (auto dest: match_raw_csv_pos)

definition has_raw_data :: "string \<Rightarrow> bool" where
  "has_raw_data text \<longleftrightarrow> length (findall_raw_csv True text) > 2"

text \<open>
  The line tests of \<^verbatim>\<open>_extract_meaningful_response\<close>, each a \<^verbatim>\<open>re.match\<close>.
  \<^verbatim>\<open>\s*$\<close> holds where only white space is left (a line feed is white space);
  \<^verbatim>\<open>.*$\<close> holds where no line feed is left but a last one.
\<close>

definition is_date_line :: "string \<Rightarrow> bool" where
  "is_date_line line \<longleftrightarrow>
     (let r = dropWhile is_space line in
      match_date r = Some 10 \<and> list_all is_space (drop 10 r))"

definition is_number_line :: "string \<Rightarrow> bool" where
  "is_number_line line \<longleftrightarrow>
     (let r = dropWhile is_space line;
          num = takeWhile (\<lambda>c. is_digit c \<or> c = CHR ''.'') r
      in num \<noteq> [] \<and> list_all is_space (drop (length num) r))"

definition is_category_line :: "string \<Rightarrow> bool" where
  "is_category_line line \<longleftrightarrow>
     (let r = dropWhile is_space line;
          after = (if startswith r ''Main'' then Some (drop 4 r)
                   else if startswith r ''Drink'' then Some (drop 5 r)
                   else if startswith r ''Other'' then Some (drop 5 r)
                   else None)
      in case after of
           None \<Rightarrow> False
         | Some a \<Rightarrow>
             (let d = dropWhile is_space a in
              startswith d ''-'' \<and> CHR 0x0A \<notin> set (butlast (drop 1 d))))"

definition is_id_line :: "string \<Rightarrow> bool" where
  "is_id_line line \<longleftrightarrow>
     (let r = dropWhile is_space line; num = takeWhile is_digit r
      in num \<noteq> [] \<and> list_all is_space (drop (length num) r))"

text \<open>\<^verbatim>\<open>re.sub(r"^\d+\.\s*", "", line)\<close>.\<close>

definition sub_numbering :: "string \<Rightarrow> string" where
  "sub_numbering line =
     (let r = dropWhile is_digit line in
      if takeWhile is_digit line \<noteq> [] \<and> startswith r ''.''
      then dropWhile is_space (drop 1 r)
      else line)"

text \<open>
  \<^verbatim>\<open>re.sub(pattern, repl, text)\<close> for a pattern given by its matcher \<open>m\<close>: every
  match from the left is replaced, the scan going on behind it. None of the patterns of
  the source matches the empty string.
\<close>

function sub_all :: "(string \<Rightarrow> nat option) \<Rightarrow> string \<Rightarrow> string \<Rightarrow> string" where
  "sub_all m repl [] = []"
| "sub_all m repl (c # cs) =
     (case m (c # cs) of
        None \<Rightarrow> c # sub_all m repl cs
      | Some n \<Rightarrow>
          if 0 < n then repl @ sub_all m repl (drop n (c # cs))
          else c # sub_all m repl cs)"
  by pat_completeness auto
termination
  by (relation "measure (\<lambda>(m, repl, s). length s)") auto

text \<open>\<^verbatim>\<open>\s{2,}\<close> at the head of \<open>s\<close>, and \<^verbatim>\<open>re.sub(r"\s{2,}", " ", line)\<close>.\<close>

definition match_spaces :: "string \<Rightarrow> nat option" where
  "match_spaces s =
     (let n = length (takeWhile is_space s) in if 2 \<le> n then Some n else None)"

definition sub_spaces :: "string \<Rightarrow> string" where
  "sub_spaces line = sub_all match_spaces '' '' line"

section \<open>The recovery filter\<close>

text \<open>
  \<^verbatim>\<open>IndexManager._extract_meaningful_response\<close>, to its \<^verbatim>\<open>return text.strip()\<close>.
  The statements behind that return (a docstring and a body that compresses verbose
  answers, with no \<^verbatim>\<open>def\<close> line of their own) are never run.
\<close>

definition keep_line :: "string \<Rightarrow> bool" where
  "keep_line line \<longleftrightarrow>
     \<not> is_date_line line \<and> \<not> is_number_line line \<and> \<not> is_category_line line
     \<and> \<not> is_id_line line \<and> strip line \<noteq> [] \<and> length (strip line) > 3"

definition clean_line :: "string \<Rightarrow> string" where
  "clean_line line = strip (sub_spaces (sub_numbering line))"

definition cleaned_lines :: "string \<Rightarrow> string list" where
  "cleaned_lines text = map clean_line (filter keep_line (split text [CHR 0x0A]))"

definition conversational_openers :: "string list" where
  "conversational_openers = [''i'd'', ''great'', ''perfect'', ''sure'', ''here'', ''based'']"

text \<open>The friendly wrapper that the function adds where the text has no opener.\<close>

definition add_wrapper :: "string \<Rightarrow> string \<Rightarrow> string" where
  "add_wrapper text query =
     (if \<not> list_ex (\<lambda>w. startswith (lower text) w) conversational_openers then
        (if contains (lower query) ''allerg'' \<or> contains (lower query) ''spic'' then
           ''For your allergy concern: '' @ text
         else if contains (lower query) ''recommend'' then
           ''Here are some great options: '' @ text
         else text)
      else text)"

definition extract_meaningful_response :: "string \<Rightarrow> string \<Rightarrow> string" where
  "extract_meaningful_response text query =
     (if cleaned_lines text = [] then
        (if contains (lower query) ''allerg'' \<or> contains (lower query) ''spic'' then
           ''I'd recommend dishes like Cauliflower Bhajee, Chapati, or mild curries on request. Always tell our staff about your allergy so we can prepare it safely!''
         else if contains (lower query) ''suggest'' \<or> contains (lower query) ''recommend'' then
           ''Let me know what cuisine you prefer '' @ [em_dash]
             @ '' I can suggest mild, vegetarian, or other options!''
         else
           ''Sorry, I'm having trouble retrieving that info. Please ask our staff for details!'')
      else
        (let text1 = join '' '' (cleaned_lines text);
             text2 = (if length text1 > 300 \<or> count text1 ''.'' > 5
                      then first_sentences 2 text1
                      else text1)
         in strip (add_wrapper text2 query)))"

section \<open>Field-label cleanup\<close>

text \<open>
  \<^verbatim>\<open>IndexManager._clean_and_format_response\<close>. First the pattern of its item lines,
  \<^verbatim>\<open>(?:Item Name,\s*)?Quantity:\s*([^,]+),\s*(\d+)\<close>, which yields its two groups.
  The first group runs to the first comma behind \<^verbatim>\<open>Quantity:\<close> and is not empty:
  \<^verbatim>\<open>\s*\<close> takes the white space before it, but gives one character back where
  nothing but white space stands before the comma.
\<close>

definition match_quantity :: "string \<Rightarrow> (string \<times> string) option" where
  "match_quantity s =
     (if startswith s ''Quantity:'' then
        (let r = drop 9 s;
             field = takeWhile (\<lambda>c. c \<noteq> CHR '','') r;
             behind = dropWhile (\<lambda>c. c \<noteq> CHR '','') r;
             ws = length (takeWhile is_space field);
             name = (if ws < length field then drop ws field else drop (ws - 1) field)
         in if field \<noteq> [] \<and> behind \<noteq> [] then
              (let digits = takeWhile is_digit (dropWhile is_space (drop 1 behind)) in
               if digits \<noteq> [] then Some (name, digits) else None)
            else None)
      else None)"

definition match_item_quantity :: "string \<Rightarrow> (string \<times> string) option" where
  "match_item_quantity s =
     (case (if startswith s ''Item Name,''
            then match_quantity (dropWhile is_space (drop 10 s)) else None) of
        Some g \<Rightarrow> Some g
      | None \<Rightarrow> match_quantity s)"

text \<open>\<^verbatim>\<open>re.search\<close> of that pattern: the match that starts first.\<close>

fun search_item_quantity :: "string \<Rightarrow> (string \<times> string) option" where
  "search_item_quantity [] = None"
| "search_item_quantity (c # cs) =
     (case match_item_quantity (c # cs) of
        Some g \<Rightarrow> Some g
      | None \<Rightarrow> search_item_quantity cs)"

text \<open>The body of the loop over the lines: the item a line adds to \<^verbatim>\<open>items\<close>, if any.\<close>

definition line_item :: "string \<Rightarrow> (string \<times> string) option" where
  "line_item line =
     (case search_item_quantity line of
        Some (name, qty) \<Rightarrow> Some (strip name, strip qty)
      | None \<Rightarrow>
          if contains line '','' \<and> list_ex is_digit line then
            (let parts = map strip (split line '','') in
             if 2 \<le> length parts \<and> isdigit (last parts)
             then Some (hd parts, last parts) else None)
          else None)"

text \<open>\<^verbatim>\<open>re.sub(r"^(Plain|Prwan|Plains)\s*", "", name)\<close>.\<close>

definition sub_plain :: "string \<Rightarrow> string" where
  "sub_plain name =
     (if startswith name ''Plain'' then dropWhile is_space (drop 5 name)
      else if startswith name ''Prwan'' then dropWhile is_space (drop 5 name)
      else if startswith name ''Plains'' then dropWhile is_space (drop 6 name)
      else name)"

definition top_items_response :: "(string \<times> string) list \<Rightarrow> string" where
  "top_items_response items =
     strip (''Great question! Here are our most popular dishes right now:\<newline>\<newline>''
       @ concat (map (\<lambda>(name, qty). [bullet] @ '' '' @ strip (sub_plain name) @ ''\<newline>'')
                   (take 10 items))
       @ ''\<newline>These items have been customer favorites with strong demand. ''
       @ ''Would you like a recommendation based on spice level or cuisine type?'')"

text \<open>
  \<^verbatim>\<open>\b([A-Z][a-z]+ (?:Curry|Biryani|Naan|Bhajee|Chaat|Masala|Tikka)[a-zA-Z]*)\b\<close>
  at the head of \<open>s\<close>, with the character before it (\<open>prev\<close>) for the word boundary.
\<close>

definition dish_kinds :: "string list" where
  "dish_kinds = [''Curry'', ''Biryani'', ''Naan'', ''Bhajee'', ''Chaat'', ''Masala'', ''Tikka'']"

definition match_dish :: "char option \<Rightarrow> string \<Rightarrow> nat option" where
  "match_dish prev s =
     (case s of
        [] \<Rightarrow> None
      | c # cs \<Rightarrow>
          if (case prev of None \<Rightarrow> True | Some p \<Rightarrow> \<not> is_word p) \<and> is_upper c then
            (let lows = takeWhile is_lower cs; r = dropWhile is_lower cs in
             if lows \<noteq> [] \<and> startswith r '' '' then
               (case find (startswith (drop 1 r)) dish_kinds of
                  None \<Rightarrow> None
                | Some kind \<Rightarrow>
                    (let r2 = drop (length kind) (drop 1 r);
                         more = takeWhile is_alpha r2;
                         r3 = dropWhile is_alpha r2
                     in if r3 = [] \<or> \<not> is_word (hd r3)
                        then Some (1 + length lows + 1 + length kind + length more)
                        else None))
             else None)
          else None)"

lemma match_dish_pos: "match_dish prev s = Some n \<Longrightarrow> 0 < n"
  by (auto simp: match_dish_def Let_def split: list.splits option.splits if_splits)

function findall_dishes :: "char option \<Rightarrow> string \<Rightarrow> string list" where
  "findall_dishes prev [] = []"
| "findall_dishes prev (c # cs) =
     (case match_dish prev (c # cs) of
        Some n \<Rightarrow>
          take n (c # cs) # findall_dishes (Some ((c # cs) ! (n - 1))) (drop n (c # cs))
      | None \<Rightarrow> findall_dishes (Some c) cs)"
  by pat_completeness auto
termination findall_dishes
  by (relation "measure (\<lambda>(prev, s). length s)") (auto dest: match_dish_pos)

definition recommendation_response :: "string \<Rightarrow> string" where
  "recommendation_response text =
     (let dishes = findall_dishes None text;
          response =
            (if dishes \<noteq> [] then
               ''Perfect! Based on what's trending right now:\<newline>\<newline>''
               @ concat (map (\<lambda>dish. [bullet] @ '' '' @ dish @ '' is getting great feedback\<newline>'')
                           (take 5 (fromkeys dishes)))
               @ ''\<newline>These are currently among our guests' favorites. ''
             else
               ''Based on recent trends, our guests are loving our curry and biryani selections. '')
      in strip (response @ ''Which cuisine or spice level appeals to you?''))"

text \<open>The patterns that the last part of the function removes.\<close>

text \<open>\<^verbatim>\<open>Item Name,\s*Quantity:\s*\<close>\<close>

definition match_item_label :: "string \<Rightarrow> nat option" where
  "match_item_label s =
     (if startswith s ''Item Name,'' then
        (let r = dropWhile is_space (drop 10 s) in
         if startswith r ''Quantity:''
         then Some (length s - length (dropWhile is_space (drop 9 r)))
         else None)
      else None)"

text \<open>\<^verbatim>\<open>Title:\s*\w+\s*\<close>\<close>

definition match_title :: "string \<Rightarrow> nat option" where
  "match_title s =
     (if startswith s ''Title:'' then
        (let r = dropWhile is_space (drop 6 s) in
         if takeWhile is_word r \<noteq> []
         then Some (length s - length (dropWhile is_space (dropWhile is_word r)))
         else None)
      else None)"

text \<open>\<^verbatim>\<open>\[Read as CSV\]\<close>, a literal.\<close>

definition match_literal :: "string \<Rightarrow> string \<Rightarrow> nat option" where
  "match_literal lit s = (if startswith s lit then Some (length lit) else None)"

text \<open>
  \<^verbatim>\<open>===.*?===\<close>: behind the opening delimiter, the fewest characters, none of them a
  line feed, up to the next delimiter.
\<close>

fun find_close :: "string \<Rightarrow> nat option" where
  "find_close [] = None"
| "find_close (c # cs) =
     (if startswith (c # cs) ''==='' then Some 0
      else if c = CHR 0x0A then None
      else map_option Suc (find_close cs))"

definition match_delimited :: "string \<Rightarrow> nat option" where
  "match_delimited s =
     (if startswith s ''==='' then map_option (\<lambda>k. 3 + k + 3) (find_close (drop 3 s))
      else None)"

text \<open>\<^verbatim>\<open>\n\n+\<close>\<close>

definition match_newlines :: "string \<Rightarrow> nat option" where
  "match_newlines s =
     (let n = length (takeWhile (\<lambda>c. c = CHR 0x0A) s) in if 2 \<le> n then Some n else None)"

definition friendly_prefixes :: "string list" where
  "friendly_prefixes =
     [''great'', ''perfect'', ''sure'', ''absolutely'', ''yes'', ''hi'', ''hello'']"

definition strip_field_labels :: "string \<Rightarrow> string" where
  "strip_field_labels text =
     sub_all match_newlines ''\<newline>''
       (sub_all match_delimited []
          (sub_all (match_literal ''[Read as CSV]'') []
             (sub_all match_title []
                (sub_all match_item_label [] text))))"

text \<open>The friendly prefix that the function adds where the text has none.\<close>

definition add_prefix :: "string \<Rightarrow> string" where
  "add_prefix text =
     (if \<not> list_ex (startswith (lower text)) friendly_prefixes
      then ''Based on our data: '' @ text else text)"

text \<open>The two tests of the query, and the items that the loop over the lines collects.\<close>

definition is_top_items_query :: "string \<Rightarrow> bool" where
  "is_top_items_query query \<longleftrightarrow>
     contains (lower query) ''top''
     \<and> (contains (lower query) ''item'' \<or> contains query ''10''
          \<or> contains query ''five'' \<or> contains query ''best''
          \<or> contains query ''popular'')"

definition is_recommendation_query :: "string \<Rightarrow> bool" where
  "is_recommendation_query query \<longleftrightarrow>
     list_ex (contains (lower query))
       [''recommend'', ''suggest'', ''best'', ''popular'', ''trending'']"

definition collect_items :: "string \<Rightarrow> (string \<times> string) list" where
  "collect_items text = List.map_filter line_item (split text ''\<newline>'')"

text \<open>
  The last part of the function, for the other queries: the labels are removed, the
  text is cut to three sentences and gets its prefix.
\<close>

definition default_cleanup :: "string \<Rightarrow> string" where
  "default_cleanup text =
     (let text1 = strip_field_labels text;
          sentences = split text1 ''. '';
          text2 = (if length sentences > 3 then first_sentences 3 text1 else text1)
      in strip (add_prefix text2))"

definition clean_and_format_response :: "string \<Rightarrow> string \<Rightarrow> string" where
  "clean_and_format_response text query =
     (let items = (if is_top_items_query query then collect_items text else [])
      in if items \<noteq> [] then top_items_response items
         else if is_recommendation_query query then recommendation_response text
         else default_cleanup text)"

section \<open>The query path\<close>

text \<open>
  An exception of Python is a value that carries its message (\<^verbatim>\<open>str(e)\<close>).
  \<^verbatim>\<open>IndexManager.query\<close> tells \<^verbatim>\<open>ResponseError\<close> of the Ollama client from
  every other \<^verbatim>\<open>Exception\<close>.
\<close>

datatype py_exception =
    ResponseError string
  | AttributeError string
  | OtherException string

fun message :: "py_exception \<Rightarrow> string" where
  "message (ResponseError m) = m"
| "message (AttributeError m) = m"
| "message (OtherException m) = m"

text \<open>
  The services behind the query are parameters. A retrieved node has its similarity
  score, a float or \<^verbatim>\<open>None\<close>. The answer of the query engine has its attribute \<^verbatim>\<open>response\<close> and its
  \<^verbatim>\<open>str()\<close>. An index generation (a \<^verbatim>\<open>VectorStoreIndex\<close>) answers \<^verbatim>\<open>as_retriever(...).retrieve(q)\<close> and
  \<^verbatim>\<open>as_query_engine(...).query(q)\<close>; the language model answers
  \<^verbatim>\<open>Settings.llm.complete(prompt)\<close> with its \<^verbatim>\<open>text\<close>. Each call returns or raises.
\<close>

text \<open>
  A float of Python: the real number that a finite float denotes, an infinity, or
  NaN.
\<close>

datatype py_float = Finite real | PlusInfinity | MinusInfinity | NaN

record node =
  score :: "py_float option"

record response =
  response :: "string option"
  str :: string

record vector_store_index =
  retrieve :: "string \<Rightarrow> py_exception + node list"
  engine_query :: "string \<Rightarrow> py_exception + response"

type_synonym llm = "string \<Rightarrow> py_exception + string"

text \<open>The calls a query makes to the services, in their order.\<close>

datatype call = Retrieve string | Complete string | EngineQuery string

definition quoted :: "string \<Rightarrow> string" where
  "quoted s = [CHR 0x27] @ s @ [CHR 0x27]"

text \<open>The message of the \<^verbatim>\<open>AttributeError\<close> that Python raises for \<^verbatim>\<open>obj.attr\<close>.\<close>

definition no_attribute :: "string \<Rightarrow> string \<Rightarrow> py_exception" where
  "no_attribute cls attr =
     AttributeError (quoted cls @ '' object has no attribute '' @ quoted attr)"

definition greetings :: "string list" where
  "greetings = [''hi'', ''hii'', ''hey'', ''hello'', ''hello there'', ''hi there'',
     ''hey there'', ''howdy'', ''good morning'', ''good afternoon'', ''good evening'']"

definition order_keywords :: "string list" where
  "order_keywords = [''order'', ''menu'', ''item'', ''dish'', ''food'', ''curry'',
     ''biryani'', ''naan'', ''papadum'', ''forecast'', ''demand'', ''sale'', ''popular'',
     ''best-seller'', ''price'', ''cost'', ''week'', ''predict'', ''trend'', ''top items'',
     ''availability'', ''served'']"

definition greeting_reply :: string where
  "greeting_reply = ''Hello! Welcome User. How can I help you today? Feel free to ask about our menu items, recommendations, or anything else!''"

definition ask_specific_reply :: string where
  "ask_specific_reply = ''Could you please ask me something more specific?''"

definition no_data_reply :: string where
  "no_data_reply = ''I don't have information about that in our system. Our menu and order data might not include what you're looking for, or it could be temporarily unavailable. Please ask our staff directly for more details!''"

text \<open>Step 1 of \<^verbatim>\<open>query\<close>, on the stripped query.\<close>

definition is_greeting :: "string \<Rightarrow> bool" where
  "is_greeting q \<longleftrightarrow>
     (let q_lower_clean = remove_char CHR ''?'' (remove_char CHR ''!'' (lower q)) in
      q_lower_clean \<in> set greetings \<or> (length q < 5 \<and> q_lower_clean \<in> set greetings))"

text \<open>Step 3: \<^verbatim>\<open>any(keyword in q_lower for keyword in order_keywords)\<close>.\<close>

definition is_order_related :: "string \<Rightarrow> bool" where
  "is_order_related q \<longleftrightarrow> list_ex (contains (lower q)) order_keywords"

text \<open>
  Step 5: \<^verbatim>\<open>float(node.score or 0) < 0.15\<close> for every node, or no node.
  \<^verbatim>\<open>None\<close> and zero count as false, so that \<^verbatim>\<open>or\<close> gives 0 for them and the score
  itself otherwise. The literal \<^verbatim>\<open>0.15\<close> is the float nearest to 15/100, the number
  \<^verbatim>\<open>5404319552844595 / 2**55\<close>, which is a little less than 15/100. A comparison with NaN
  is false.
\<close>

definition score_or_0 :: "node \<Rightarrow> py_float" where
  "score_or_0 n = (case score n of None \<Rightarrow> Finite 0 | Some x \<Rightarrow> x)"

definition threshold :: real where
  "threshold = 5404319552844595 / 2 ^ 55"

fun below :: "py_float \<Rightarrow> real \<Rightarrow> bool" where
  "below (Finite x) y = (x < y)"
| "below PlusInfinity y = False"
| "below MinusInfinity y = True"
| "below NaN y = False"

definition no_context :: "node list \<Rightarrow> bool" where
  "no_context retrieved_nodes \<longleftrightarrow>
     retrieved_nodes = [] \<or> list_all (\<lambda>n. below (score_or_0 n) threshold) retrieved_nodes"

definition fallback_prompt :: "string \<Rightarrow> string" where
  "fallback_prompt q =
     ''You are a friendly restaurant assistant. Respond conversationally and warmly.\<newline>\<newline>''
     @ ''Structure your response as:\<newline>1. Warm greeting\<newline>''
     @ ''2. Natural, helpful answer to their question\<newline>3. A friendly closing suggestion\<newline>\<newline>''
     @ ''The guest said: '' @ [CHR 0x22] @ q @ [CHR 0x22] @ ''\<newline>\<newline>''
     @ ''Respond naturally without mentioning data, files, or systems. Keep it brief and warm.''"

text \<open>\<^verbatim>\<open>getattr(resp, "response", None) or str(resp)\<close>\<close>

definition candidate_text :: "response \<Rightarrow> string" where
  "candidate_text resp =
     (case response resp of
        None \<Rightarrow> str resp
      | Some t \<Rightarrow> if t = [] then str resp else t)"

text \<open>
  The post-processing of the candidate answer, one \<^verbatim>\<open>if\<close>/\<^verbatim>\<open>elif\<close> chain. Its
  third branch calls \<^verbatim>\<open>self._compress_verbose_response\<close>, a method the class does not
  have: the \<^verbatim>\<open>def\<close> line is missing, and the body meant for it stands unreachable
  behind the \<^verbatim>\<open>return\<close> of \<^verbatim>\<open>_extract_meaningful_response\<close>. The call raises
  \<^verbatim>\<open>AttributeError\<close>.
\<close>

definition post_process :: "string \<Rightarrow> string \<Rightarrow> py_exception + string" where
  "post_process text q =
     (if has_raw_data text then
        Inr (extract_meaningful_response text q)
      else if count text ''Item Name'' > 0 \<or> count text ''Title:'' > 0 then
        Inr (clean_and_format_response text q)
      else if count text ''This dish'' > 3 \<or> count text ''which means'' > 2
              \<or> count text ''typically consists'' > 2 then
        Inl (no_attribute ''IndexManager'' ''_compress_verbose_response'')
      else if count text ''The item'' > 2 \<or> count text ([CHR '' '', bullet, CHR '' '']) > 5 then
        (let sentences = split text ''. '' in
         if length sentences > 2 then Inr (first_sentences 2 text)
         else Inr text)
      else Inr text)"

text \<open>
  The \<^verbatim>\<open>try\<close> block of \<^verbatim>\<open>query\<close>. It reads the published handle
  \<^verbatim>\<open>self._index\<close> twice, for the retriever (step 4) and again for the query engine
  (step 6); \<open>index1\<close> and \<open>index2\<close> are what the two reads find. The handle is
  \<^verbatim>\<open>None\<close> until a build has published a generation. The result comes with the calls
  made. The two \<^verbatim>\<open>import\<close> statements before the \<^verbatim>\<open>try\<close> are taken to succeed:
  the module has imported the same packages when it was loaded.
\<close>

definition query_body ::
  "llm \<Rightarrow> vector_store_index option \<Rightarrow> vector_store_index option \<Rightarrow> string \<Rightarrow> (py_exception + string) \<times> call list"
where
  "query_body llm_complete index1 index2 q0 =
     (let q = strip q0 in
      if is_greeting q then (Inr greeting_reply, [])
      else if length q < 3 then (Inr ask_specific_reply, [])
      else
        (case index1 of
           None \<Rightarrow> (Inl (no_attribute ''NoneType'' ''as_retriever''), [])
         | Some idx1 \<Rightarrow>
             (case retrieve idx1 q of
                Inl e \<Rightarrow> (Inl e, [Retrieve q])
              | Inr retrieved_nodes \<Rightarrow>
                  if no_context retrieved_nodes then
                    (if is_order_related q then (Inr no_data_reply, [Retrieve q])
                     else
                       (case llm_complete (fallback_prompt q) of
                          Inl e \<Rightarrow> (Inl e, [Retrieve q, Complete (fallback_prompt q)])
                        | Inr t \<Rightarrow> (Inr (strip t), [Retrieve q, Complete (fallback_prompt q)])))
                  else
                    (case index2 of
                       None \<Rightarrow>
                         (Inl (no_attribute ''NoneType'' ''as_query_engine''), [Retrieve q])
                     | Some idx2 \<Rightarrow>
                         (case engine_query idx2 q of
                            Inl e \<Rightarrow> (Inl e, [Retrieve q, EngineQuery q])
                          | Inr resp \<Rightarrow>
                              (post_process (candidate_text resp) q,
                               [Retrieve q, EngineQuery q]))))))"

text \<open>The two \<^verbatim>\<open>except\<close> clauses of \<^verbatim>\<open>query\<close>.\<close>

fun error_reply :: "py_exception \<Rightarrow> string" where
  "error_reply (ResponseError m) =
     ''[Ollama Error] The model stopped or ran out of resources. Try restarting Ollama or freeing memory.\<newline>Details: '' @ m"
| "error_reply e = ''[Unexpected Error During Query] '' @ message e"

definition query_reads :: "llm \<Rightarrow> vector_store_index option \<Rightarrow> vector_store_index option \<Rightarrow> string \<Rightarrow> string \<times> call list" where
  "query_reads llm_complete index1 index2 q =
     (case query_body llm_complete index1 index2 q of
        (Inr answer, calls) \<Rightarrow> (answer, calls)
      | (Inl e, calls) \<Rightarrow> (error_reply e, calls))"

text \<open>A query while no build publishes: both reads find the same handle.\<close>

definition query :: "llm \<Rightarrow> vector_store_index option \<Rightarrow> string \<Rightarrow> string \<times> call list" where
  "query llm_complete idx q = query_reads llm_complete idx idx q"

section \<open>The index build and the corpus watcher\<close>

text \<open>
  The state that \<^verbatim>\<open>IndexManager\<close> and its build share: the published handle
  \<^verbatim>\<open>self._index\<close>, the snapshot \<^verbatim>\<open>self._last_snapshot\<close> of the last build, and
  the directory \<^verbatim>\<open>PERSIST_DIR\<close> on disk, which is removed, or holds some files that
  are not the data of a whole generation, or the persisted data of a generation. A snapshot is
  the set of the pairs (name, modification time) of the data files.
\<close>

type_synonym snapshot = "(string \<times> real) set"

datatype 'g persist_dir = Removed | Partial | Persisted 'g

record 'g manager =
  index :: "'g option"
  last_snapshot :: "snapshot option"
  persist_dir :: "'g persist_dir"

text \<open>
  What the services and the file system do during one run of \<^verbatim>\<open>_build_index\<close>.
  Each step returns or raises, and each step that writes to \<^verbatim>\<open>PERSIST_DIR\<close> says
  what it leaves of the directory, also where it raises: setting up \<^verbatim>\<open>Settings\<close>
  (lines 146 to 163); \<^verbatim>\<open>shutil.rmtree(PERSIST_DIR, ignore_errors=True)\<close>, which never
  raises and leaves the directory removed unless an error of the removal was ignored;
  \<^verbatim>\<open>collect_documents()\<close> (extraction); opening the Chroma store (lines 167 to
  170); \<^verbatim>\<open>VectorStoreIndex.from_documents\<close> (chunking, embedding, filling the store);
  \<^verbatim>\<open>storage_context.persist\<close>; and \<^verbatim>\<open>get_files_snapshot()\<close>.
\<close>

record 'g build_run =
  configure :: "py_exception option"
  rmtree :: "'g persist_dir \<Rightarrow> 'g persist_dir"
  collect_documents :: "py_exception + string list"
  open_store :: "'g persist_dir \<Rightarrow> py_exception option \<times> 'g persist_dir"
  from_documents :: "string list \<Rightarrow> 'g persist_dir \<Rightarrow> (py_exception + 'g) \<times> 'g persist_dir"
  persist :: "'g \<Rightarrow> 'g persist_dir \<Rightarrow> py_exception option \<times> 'g persist_dir"
  files_snapshot :: "py_exception + snapshot"

text \<open>The step of the build at which an exception was raised.\<close>

datatype stage = Configure | Extract | OpenStore | Embed | Persist | Snapshot

datatype build_result = Built | Failed stage py_exception

text \<open>
  \<^verbatim>\<open>IndexManager._build_index\<close>: the state it leaves, also where it raises. The
  removal of the directory comes before anything is collected; the handle is assigned
  behind \<^verbatim>\<open>persist\<close>, the snapshot last.
\<close>

definition build_index :: "'g build_run \<Rightarrow> 'g manager \<Rightarrow> build_result \<times> 'g manager" where
  "build_index run m =
     (case configure run of
        Some e \<Rightarrow> (Failed Configure e, m)
      | None \<Rightarrow>
          (let m1 = m\<lparr>persist_dir := rmtree run (persist_dir m)\<rparr> in
           case collect_documents run of
             Inl e \<Rightarrow> (Failed Extract e, m1)
           | Inr docs \<Rightarrow>
               (case open_store run (persist_dir m1) of
                  (Some e, d1) \<Rightarrow> (Failed OpenStore e, m1\<lparr>persist_dir := d1\<rparr>)
                | (None, d1) \<Rightarrow>
                    (case from_documents run docs d1 of
                       (Inl e, d2) \<Rightarrow> (Failed Embed e, m1\<lparr>persist_dir := d2\<rparr>)
                     | (Inr new_index, d2) \<Rightarrow>
                         (case persist run new_index d2 of
                            (Some e, d3) \<Rightarrow> (Failed Persist e, m1\<lparr>persist_dir := d3\<rparr>)
                          | (None, d3) \<Rightarrow>
                              (let m3 = m1\<lparr>persist_dir := d3, index := Some new_index\<rparr> in
                               case files_snapshot run of
                                 Inl e \<Rightarrow> (Failed Snapshot e, m3)
                               | Inr snap \<Rightarrow>
                                   (Built, m3\<lparr>last_snapshot := Some snap\<rparr>)))))))"






section \<open>The HTTP endpoint\<close>

text \<open>
  A parsed JSON value; \<^verbatim>\<open>None\<close> of Python is \<open>JNull\<close>. An object is the list of its
  members, each key once.
\<close>

datatype json =
    JNull
  | JBool bool
  | JInt int
  | JFloat real
  | JString string
  | JArray "json list"
  | JObject "(string \<times> json) list"

text \<open>The truth value Python gives a value (\<^verbatim>\<open>not x\<close>, \<^verbatim>\<open>x or y\<close>).\<close>

fun truthy :: "json \<Rightarrow> bool" where
  "truthy JNull = False"
| "truthy (JBool b) = b"
| "truthy (JInt n) = (n \<noteq> 0)"
| "truthy (JFloat x) = (x \<noteq> 0)"
| "truthy (JString s) = (s \<noteq> [])"
| "truthy (JArray xs) = (xs \<noteq> [])"
| "truthy (JObject kvs) = (kvs \<noteq> [])"

definition py_or :: "json \<Rightarrow> json \<Rightarrow> json" where
  "py_or a b = (if truthy a then a else b)"

fun type_name :: "json \<Rightarrow> string" where
  "type_name JNull = ''NoneType''"
| "type_name (JBool b) = ''bool''"
| "type_name (JInt n) = ''int''"
| "type_name (JFloat x) = ''float''"
| "type_name (JString s) = ''str''"
| "type_name (JArray xs) = ''list''"
| "type_name (JObject kvs) = ''dict''"

text \<open>\<^verbatim>\<open>body.get(key)\<close> of a dictionary.\<close>

definition dict_get :: "(string \<times> json) list \<Rightarrow> string \<Rightarrow> json" where
  "dict_get kvs key = (case map_of kvs key of None \<Rightarrow> JNull | Some v \<Rightarrow> v)"

text \<open>
  \<^verbatim>\<open>body.get("query") or body.get("message")\<close>: a body that is no dictionary has no
  \<^verbatim>\<open>get\<close>.
\<close>

definition query_or_message :: "json \<Rightarrow> py_exception + json" where
  "query_or_message body =
     (case body of
        JObject kvs \<Rightarrow> Inr (py_or (dict_get kvs ''query'') (dict_get kvs ''message''))
      | _ \<Rightarrow> Inl (no_attribute (type_name body) ''get''))"

text \<open>
  A request: its \<^verbatim>\<open>content-type\<close> header (empty when absent), and what
  \<^verbatim>\<open>await request.json()\<close> and \<^verbatim>\<open>await request.form()\<close> return or raise for its
  body. The fields of a form are strings (uploaded files are left out).
\<close>

record request =
  content_type :: string
  json_body :: "py_exception + json"
  form_body :: "py_exception + (string \<rightharpoonup> string)"

definition form_get :: "(string \<rightharpoonup> string) \<Rightarrow> string \<Rightarrow> json" where
  "form_get form key = (case form key of None \<Rightarrow> JNull | Some v \<Rightarrow> JString v)"

text \<open>
  The body that \<^verbatim>\<open>rag_query\<close> reads, by the content type: the JSON body for
  \<^verbatim>\<open>application/json\<close> and for every type that is not one of a form, the form
  otherwise.
\<close>

definition form_type :: "request \<Rightarrow> bool" where
  "form_type req \<longleftrightarrow>
     contains (content_type req) ''application/x-www-form-urlencoded''
     \<or> contains (content_type req) ''multipart/form-data''"

definition reads_json :: "request \<Rightarrow> bool" where
  "reads_json req \<longleftrightarrow> contains (content_type req) ''application/json'' \<or> \<not> form_type req"

definition reads_form :: "request \<Rightarrow> bool" where
  "reads_form req \<longleftrightarrow> \<not> contains (content_type req) ''application/json'' \<and> form_type req"

text \<open>The \<^verbatim>\<open>query_text\<close> that \<^verbatim>\<open>rag_query\<close> takes from the request.\<close>

definition query_text_of :: "request \<Rightarrow> py_exception + json" where
  "query_text_of req =
     (if contains (content_type req) ''application/json'' then
        (case json_body req of
           Inl e \<Rightarrow> Inl e
         | Inr body \<Rightarrow> query_or_message body)
      else if form_type req then
        (case form_body req of
           Inl e \<Rightarrow> Inl e
         | Inr form \<Rightarrow> Inr (py_or (form_get form ''query'') (form_get form ''message'')))
      else
        (case json_body req of
           Inl e \<Rightarrow> Inr JNull
         | Inr body \<Rightarrow>
             (case query_or_message body of
                Inl e \<Rightarrow> Inr JNull
              | Inr v \<Rightarrow> Inr v)))"

text \<open>
  \<^verbatim>\<open>index_manager.query(query_text)\<close> for any value: one that is no string has no
  \<^verbatim>\<open>strip\<close>, which the \<^verbatim>\<open>except\<close> clause of \<^verbatim>\<open>query\<close> turns into an answer.
\<close>

definition query_value ::
  "llm \<Rightarrow> vector_store_index option \<Rightarrow> json \<Rightarrow> string \<times> call list" where
  "query_value llm_complete idx v =
     (case v of
        JString q \<Rightarrow> query llm_complete idx q
      | _ \<Rightarrow> (error_reply (no_attribute (type_name v) ''strip''), []))"

text \<open>
  The response: a \<^verbatim>\<open>JSONResponse\<close> with its status code and detail, or the
  \<^verbatim>\<open>QueryResponse\<close> (answer, query, timestamp), which FastAPI sends with status 200.
\<close>

datatype http_response =
    JSONResponse nat string
  | QueryResponse string string string

fun status_code :: "http_response \<Rightarrow> nat" where
  "status_code (JSONResponse code detail) = code"
| "status_code (QueryResponse answer query_text timestamp) = 200"

text \<open>
  The field \<^verbatim>\<open>query: str\<close> of \<^verbatim>\<open>QueryResponse\<close> takes a string as it is. What
  pydantic does with another value depends on its version (\<open>coerce\<close>: the string it
  makes of the value, or the validation error it raises).
\<close>

definition validate_str ::
  "(json \<Rightarrow> py_exception + string) \<Rightarrow> json \<Rightarrow> py_exception + string" where
  "validate_str coerce v = (case v of JString s \<Rightarrow> Inr s | _ \<Rightarrow> coerce v)"

text \<open>
  \<^verbatim>\<open>rag_query\<close>; \<open>utcnow\<close> is \<^verbatim>\<open>datetime.utcnow().isoformat()\<close> at the time of
  the call.
\<close>

definition rag_query ::
  "llm \<Rightarrow> vector_store_index option \<Rightarrow> (json \<Rightarrow> py_exception + string) \<Rightarrow> string \<Rightarrow> request
     \<Rightarrow> http_response" where
  "rag_query llm_complete idx coerce utcnow req =
     (case query_text_of req of
        Inl e \<Rightarrow> JSONResponse 500 (message e)
      | Inr query_text \<Rightarrow>
          if \<not> truthy query_text then
            JSONResponse 400 ''Missing 'query' or 'message' field''
          else
            (let answer = fst (query_value llm_complete idx query_text);
                 timestamp = utcnow @ ''Z''
             in case validate_str coerce query_text of
                  Inl e \<Rightarrow> JSONResponse 500 (message e)
                | Inr echoed \<Rightarrow> QueryResponse answer echoed timestamp))"

section \<open>Values for the examples\<close>

text \<open>
  Services and index generations with fixed answers, at which the theorems below are
  evaluated.
\<close>

definition llm_says :: "string \<Rightarrow> llm" where
  "llm_says t = (\<lambda>prompt. Inr t)"

text \<open>An index that retrieves nothing.\<close>

definition empty_index :: vector_store_index where
  "empty_index =
     \<lparr>retrieve = (\<lambda>q. Inr []),
      engine_query = (\<lambda>q. Inr \<lparr>response = Some ''Empty Response'', str = ''Empty Response''\<rparr>)\<rparr>"

text \<open>An index that retrieves one node of score 0.125, below the threshold.\<close>

definition weak_index :: vector_store_index where
  "weak_index =
     \<lparr>retrieve = (\<lambda>q. Inr [\<lparr>score = Some (Finite (1 / 8))\<rparr>]),
      engine_query = (\<lambda>q. Inr \<lparr>response = Some ''Naan'', str = ''Naan''\<rparr>)\<rparr>"

text \<open>
  An index that retrieves one node of score 0.5 and whose query engine answers with
  the text \<open>t\<close>.
\<close>

definition index_answering :: "string \<Rightarrow> vector_store_index" where
  "index_answering t =
     \<lparr>retrieve = (\<lambda>q. Inr [\<lparr>score = Some (Finite (1 / 2))\<rparr>]),
      engine_query = (\<lambda>q. Inr \<lparr>response = Some t, str = t\<rparr>)\<rparr>"

text \<open>
  A manager that serves generation 1, built from the snapshot of one file, with the
  data of that generation persisted; generations are named by strings here.
\<close>

definition serving_manager :: "string manager" where
  "serving_manager =
     \<lparr>index = Some ''generation 1'',
      last_snapshot = Some {(''menu.csv'', 100)},
      persist_dir = Persisted ''generation 1''\<rparr>"

text \<open>
  A build in which every step succeeds and yields generation 2; the removal works.
\<close>

definition good_run :: "string build_run" where
  "good_run =
     \<lparr>configure = None,
      rmtree = (\<lambda>d. Removed),
      collect_documents = Inr [''[Read as CSV] Naan, 12''],
      open_store = (\<lambda>d. (None, Partial)),
      from_documents = (\<lambda>docs d. (Inr ''generation 2'', Partial)),
      persist = (\<lambda>g d. (None, Persisted g)),
      files_snapshot = Inr {(''menu.csv'', 200)}\<rparr>"

text \<open>A build in which extraction raises.\<close>

definition failing_extraction :: "string build_run" where
  "failing_extraction =
     good_run\<lparr>collect_documents := Inl (OtherException ''[Errno 13] Permission denied'')\<rparr>"

text \<open>
  A build in which the removal leaves the directory as it is (its error is ignored), the
  store is opened there, and embedding raises.
\<close>

definition failing_embedding :: "string build_run" where
  "failing_embedding =
     good_run\<lparr>rmtree := (\<lambda>d. d),
       from_documents := (\<lambda>docs d. (Inl (ResponseError ''model not found''), Partial))\<rparr>"



text \<open>
  A manager that serves an index generation, and a build that publishes another
  one.
\<close>

definition manager_serving :: "vector_store_index \<Rightarrow> vector_store_index manager" where
  "manager_serving g =
     \<lparr>index = Some g, last_snapshot = Some {(''menu.csv'', 100)}, persist_dir = Persisted g\<rparr>"

definition run_publishing :: "vector_store_index \<Rightarrow> vector_store_index build_run" where
  "run_publishing g =
     \<lparr>configure = None,
      rmtree = (\<lambda>d. Removed),
      collect_documents = Inr [''[Read as CSV] Naan, 0''],
      open_store = (\<lambda>d. (None, Partial)),
      from_documents = (\<lambda>docs d. (Inr g, Partial)),
      persist = (\<lambda>g d. (None, Persisted g)),
      files_snapshot = Inr {(''menu.csv'', 200)}\<rparr>"

definition verbose_answer :: string where
  "verbose_answer = ''This dish is mild. This dish is creamy. This dish is popular. This dish is served with rice.''"

text \<open>
  A pydantic that rejects every value that is no string, with one message for all of
  them, and requests: a JSON body
  with the text under \<^verbatim>\<open>query\<close>, a form with the text under
  \<^verbatim>\<open>message\<close>, and a JSON body without either key.
\<close>

definition strict_str :: "json \<Rightarrow> py_exception + string" where
  "strict_str v = Inl (OtherException ''1 validation error for QueryResponse'')"

definition json_request :: request where
  "json_request =
     \<lparr>content_type = ''application/json'',
      json_body = Inr (JObject [(''query'', JString ''Hello!'')]),
      form_body = Inl (OtherException ''not a form'')\<rparr>"

definition form_request :: request where
  "form_request =
     \<lparr>content_type = ''application/x-www-form-urlencoded'',
      json_body = Inl (OtherException ''Expecting value: line 1 column 1 (char 0)''),
      form_body = Inr [''message'' \<mapsto> ''Hello!'']\<rparr>"

definition empty_request :: request where
  "empty_request =
     \<lparr>content_type = ''application/json'',
      json_body = Inr (JObject []),
      form_body = Inl (OtherException ''not a form'')\<rparr>"


definition long_answer :: string where
  "long_answer = ''Our kitchen prepares fresh naan bread every morning for all guests. The chicken curry is cooked slowly with tomatoes and mild spices. Many guests enjoy the lamb biryani with a side of yoghurt. We also serve vegetable samosas as a starter. Please ask for the specials.''"



definition dump_answer :: string where
  "dump_answer = ''The item Naan sold well. The item Rice sold well. The item Dal sold well.''"

definition dated_sentences :: string where
  "dated_sentences = ''2024-01-01\<newline>2024-01-02\<newline>2024-01-03\<newline>Naan is fresh. Rice is hot. Dal is mild. Roti is soft. Raita is cool. Lassi is sweet.''"

section \<open>Facts about the string functions\<close>

lemma startswith_iff: "startswith s p \<longleftrightarrow> (\<exists>r. s = p @ r)"
  by (induction s p rule: startswith.induct) auto

lemma contains_iff: "contains s sub \<longleftrightarrow> (\<exists>xs ys. s = xs @ sub @ ys)"
proof (induction s)
  case Nil
  then show ?case by auto
next
  case (Cons c cs)
  show ?case
  proof
    assume "contains (c # cs) sub"
    then consider "startswith (c # cs) sub" | "contains cs sub" by auto
    then show "\<exists>xs ys. c # cs = xs @ sub @ ys"
    proof cases
      case 1
      then obtain r where "c # cs = sub @ r" by (auto simp: startswith_iff)
      then have "c # cs = [] @ sub @ r" by simp
      then show ?thesis by blast
    next
      case 2
      then obtain xs ys where "cs = xs @ sub @ ys" using Cons.IH by auto
      then have "c # cs = (c # xs) @ sub @ ys" by simp
      then show ?thesis by blast
    qed
  next
    assume "\<exists>xs ys. c # cs = xs @ sub @ ys"
    then obtain xs ys where e: "c # cs = xs @ sub @ ys" by auto
    show "contains (c # cs) sub"
    proof (cases xs)
      case Nil
      then have "startswith (c # cs) sub" using e by (auto simp: startswith_iff)
      then show ?thesis by simp
    next
      case (Cons x xs')
      then have "cs = xs' @ sub @ ys" using e by simp
      then have "contains cs sub" using Cons.IH by auto
      then show ?thesis by simp
    qed
  qed
qed

lemma contains_filter:
  assumes "contains s k" and "\<forall>c \<in> set k. P c"
  shows "contains (filter P s) k"
proof -
  obtain xs ys where "s = xs @ k @ ys" using assms(1) by (auto simp: contains_iff)
  moreover have "filter P k = k" using assms(2) by (simp add: filter_id_conv)
  ultimately have "filter P s = filter P xs @ k @ filter P ys" by simp
  then show ?thesis unfolding contains_iff by blast
qed

lemma contains_length: "contains s k \<Longrightarrow> length k \<le> length s"
  by (auto simp: contains_iff)

section \<open>The classifier\<close>

text \<open>
  No greeting holds a domain keyword, and no keyword has an exclamation or question
  mark or fewer than four characters. So a query with a keyword is no greeting and is
  not too short: it reaches the retrieval step.
\<close>

lemma greetings_hold_no_keyword:
  "list_all (\<lambda>g. list_all (\<lambda>k. \<not> contains g k) order_keywords) greetings"
  by code_simp

lemma keywords_clean:
  "list_all (\<lambda>k. list_all (\<lambda>c. c \<noteq> CHR ''!'' \<and> c \<noteq> CHR ''?'') k \<and> 4 \<le> length k)
     order_keywords"
  by code_simp

lemma order_related_not_greeting:
  assumes "is_order_related q"
  shows "\<not> is_greeting q" and "3 \<le> length q"
proof -
  obtain k where k: "k \<in> set order_keywords" "contains (lower q) k"
    using assms by (auto simp: is_order_related_def list_ex_iff)
  have clean: "\<forall>c \<in> set k. c \<noteq> CHR ''!''" "\<forall>c \<in> set k. c \<noteq> CHR ''?''"
    and len: "4 \<le> length k"
    using keywords_clean k(1) by (auto simp: list_all_iff)
  let ?g = "remove_char CHR ''?'' (remove_char CHR ''!'' (lower q))"
  have "contains ?g k"
    unfolding remove_char_def using k(2) clean by (intro contains_filter) auto
  moreover have "\<forall>g \<in> set greetings. \<not> contains g k"
    using greetings_hold_no_keyword k(1) by (auto simp: list_all_iff)
  ultimately have "?g \<notin> set greetings" by blast
  then show "\<not> is_greeting q" by (simp add: is_greeting_def Let_def)
  have "length k \<le> length (lower q)" using k(2) by (rule contains_length)
  then show "3 \<le> length q" using len by (simp add: lower_def)
qed

text \<open>
  Claim C7. A query whose stripped, lower-cased text without its exclamation and
  question marks is one of the greetings is answered with the canned greeting, and
  the query makes no call at all: nothing is retrieved and nothing is generated,
  whatever the handle holds.
\<close>

theorem greeting_short_circuit:
  "remove_char CHR ''?'' (remove_char CHR ''!'' (lower (strip q))) \<in> set greetings
   \<Longrightarrow> query_reads llm_complete index1 index2 q = (greeting_reply, [])"
  by (simp add: query_reads_def query_body_def is_greeting_def Let_def)

lemma strip_hello: "strip ''Hello!'' = ''Hello!''"
  by code_simp

lemma hello_clean: "remove_char CHR ''?'' (remove_char CHR ''!'' (lower ''Hello!'')) = ''hello''"
  by code_simp

theorem greeting_short_circuit_witness:
  "remove_char CHR ''?'' (remove_char CHR ''!'' (lower (strip ''Hello!''))) \<in> set greetings
   \<and> query_reads (llm_says ''Hi'') None None ''Hello!'' = (greeting_reply, [])"
  using greeting_short_circuit [of "''Hello!''" "llm_says ''Hi''" None None]
  by (simp add: strip_hello hello_clean greetings_def)

section \<open>The retrieval gate\<close>

lemma threshold_bounds: "1 / 8 < threshold" "threshold < 15 / 100" "threshold < 1 / 2"
  by (simp_all add: threshold_def)

text \<open>
  Claim C2. A query that holds a domain keyword, for which retrieval returns no node
  or only nodes with a score below the threshold (the float 0.15 of the source), is
  answered with the fixed no-data message. The only call of the query is the
  retrieval: the language model and the query engine are not called.
\<close>

theorem domain_query_without_context:
  assumes "is_order_related (strip q)"
    and "retrieve idx (strip q) = Inr retrieved_nodes"
    and "retrieved_nodes = []
         \<or> list_all (\<lambda>n. below (score_or_0 n) threshold) retrieved_nodes"
  shows "query_reads llm_complete (Some idx) index2 q = (no_data_reply, [Retrieve (strip q)])"
proof -
  have "\<not> is_greeting (strip q)" and "\<not> length (strip q) < 3"
    using order_related_not_greeting [OF assms(1)] by auto
  moreover have "no_context retrieved_nodes" using assms(3) by (simp add: no_context_def)
  ultimately show ?thesis
    using assms(1,2) by (simp add: query_reads_def query_body_def Let_def)
qed

lemma menu_strip: "strip ''what's on the menu'' = ''what's on the menu''"
  by code_simp

lemma menu_related: "is_order_related ''what's on the menu''"
  by code_simp

theorem domain_query_without_context_witness:
  "is_order_related (strip ''what's on the menu'')
   \<and> query_reads (llm_says ''Hi'') (Some empty_index) (Some empty_index) ''what's on the menu''
       = (no_data_reply, [Retrieve ''what's on the menu''])
   \<and> list_all (\<lambda>n. below (score_or_0 n) threshold) [\<lparr>score = Some (Finite (1 / 8))\<rparr>]
   \<and> query_reads (llm_says ''Hi'') (Some weak_index) (Some weak_index) ''what's on the menu''
       = (no_data_reply, [Retrieve ''what's on the menu''])"
proof -
  have low: "list_all (\<lambda>n. below (score_or_0 n) threshold) [\<lparr>score = Some (Finite (1 / 8))\<rparr>]"
    using threshold_bounds(1) by (simp add: score_or_0_def)
  have 1: "query_reads (llm_says ''Hi'') (Some empty_index) (Some empty_index)
      ''what's on the menu'' = (no_data_reply, [Retrieve ''what's on the menu''])"
    using domain_query_without_context [of "''what's on the menu''" empty_index "[]"
        "llm_says ''Hi''" "Some empty_index"]
    by (simp add: menu_strip menu_related empty_index_def)
  have 2: "query_reads (llm_says ''Hi'') (Some weak_index) (Some weak_index)
      ''what's on the menu'' = (no_data_reply, [Retrieve ''what's on the menu''])"
    using domain_query_without_context [of "''what's on the menu''" weak_index
        "[\<lparr>score = Some (Finite (1 / 8))\<rparr>]" "llm_says ''Hi''" "Some weak_index"] low
    by (simp add: menu_strip menu_related weak_index_def)
  show ?thesis using 1 2 low by (simp add: menu_strip menu_related)
qed

text \<open>
  The float 0.15 itself is not below the threshold: a node of that score passes the
  gate.
\<close>

lemma float_threshold_passes: "\<not> no_context [\<lparr>score = Some (Finite threshold)\<rparr>]"
  by (simp add: no_context_def score_or_0_def)

section \<open>The index build\<close>

text \<open>
  Claim C1, as the code has it. When a build fails during extraction, while the store
  is opened, during embedding or while the new index is persisted, the published handle
  and the last snapshot are what they were before the build: the generation published
  before stays the one that queries are served from, and no unfinished generation is
  published. The persisted data of that generation is not protected: the build calls
  the removal of the directory before it collects the documents, so that at a failed
  extraction the directory is what the removal has left of it.
\<close>

theorem failed_build_keeps_handle:
  assumes "build_index run m = (Failed st e, m')"
    and "st \<in> {Extract, OpenStore, Embed, Persist}"
  shows "index m' = index m \<and> last_snapshot m' = last_snapshot m
         \<and> (st = Extract \<longrightarrow> persist_dir m' = rmtree run (persist_dir m))"
  using assms
  by (auto simp: build_index_def Let_def split: option.splits sum.splits prod.splits)

theorem failed_build_keeps_handle_witness:
  "build_index failing_extraction serving_manager
     = (Failed Extract (OtherException ''[Errno 13] Permission denied''),
        serving_manager\<lparr>persist_dir := Removed\<rparr>)
   \<and> index (serving_manager\<lparr>persist_dir := Removed\<rparr>) = index serving_manager
   \<and> last_snapshot (serving_manager\<lparr>persist_dir := Removed\<rparr>) = last_snapshot serving_manager
   \<and> persist_dir (serving_manager\<lparr>persist_dir := Removed\<rparr>)
       = rmtree failing_extraction (persist_dir serving_manager)
   \<and> build_index failing_embedding serving_manager
     = (Failed Embed (ResponseError ''model not found''),
        serving_manager\<lparr>persist_dir := Partial\<rparr>)
   \<and> index (serving_manager\<lparr>persist_dir := Partial\<rparr>) = index serving_manager
   \<and> last_snapshot (serving_manager\<lparr>persist_dir := Partial\<rparr>) = last_snapshot serving_manager"
  using failed_build_keeps_handle [of failing_extraction serving_manager Extract
      "OtherException ''[Errno 13] Permission denied''" "serving_manager\<lparr>persist_dir := Removed\<rparr>"]
    failed_build_keeps_handle [of failing_embedding serving_manager Embed
      "ResponseError ''model not found''" "serving_manager\<lparr>persist_dir := Partial\<rparr>"]
  by (simp add: build_index_def failing_extraction_def failing_embedding_def good_run_def)

text \<open>
  Claim C1 as the specification states it fails in its last part: a build whose
  removal of the directory works and whose extraction raises leaves the directory
  removed, although the data of generation 1 was persisted there before.
\<close>

theorem failed_build_loses_persisted_data:
  "fst (build_index failing_extraction serving_manager)
     = Failed Extract (OtherException ''[Errno 13] Permission denied'')
   \<and> persist_dir serving_manager = Persisted ''generation 1''
   \<and> persist_dir (snd (build_index failing_extraction serving_manager)) = Removed"
  by (simp add: build_index_def failing_extraction_def good_run_def serving_manager_def)

section \<open>The corpus watcher\<close>




section \<open>The paths of a query\<close>

text \<open>A query that passes the classifier and the gate is answered from the query engine.\<close>

lemma query_reads_grounded:
  assumes "\<not> is_greeting (strip q)" and "3 \<le> length (strip q)"
    and "retrieve idx1 (strip q) = Inr retrieved_nodes" and "\<not> no_context retrieved_nodes"
    and "engine_query idx2 (strip q) = Inr resp"
  shows "query_reads llm_complete (Some idx1) (Some idx2) q
           = (case post_process (candidate_text resp) (strip q) of
                Inl e \<Rightarrow> error_reply e
              | Inr answer \<Rightarrow> answer,
              [Retrieve (strip q), EngineQuery (strip q)])"
  using assms by (simp add: query_reads_def query_body_def Let_def split: sum.splits)

lemma index_answering_grounded:
  assumes "\<not> is_greeting (strip q)" and "3 \<le> length (strip q)" and "t \<noteq> []"
  shows "query_reads llm_complete (Some (index_answering t')) (Some (index_answering t)) q
           = (case post_process t (strip q) of
                Inl e \<Rightarrow> error_reply e
              | Inr answer \<Rightarrow> answer,
              [Retrieve (strip q), EngineQuery (strip q)])"
proof -
  have "\<not> no_context [\<lparr>score = Some (Finite (1 / 2))\<rparr>]"
    using threshold_bounds(3) by (simp add: no_context_def score_or_0_def)
  moreover have "candidate_text \<lparr>response = Some t, str = t\<rparr> = t"
    using assms(3) by (simp add: candidate_text_def)
  ultimately show ?thesis
    using query_reads_grounded [of q "index_answering t'" "[\<lparr>score = Some (Finite (1 / 2))\<rparr>]"
        "index_answering t" "\<lparr>response = Some t, str = t\<rparr>" llm_complete] assms(1,2)
    by (simp add: index_answering_def)
qed

section \<open>The verbosity branch\<close>

lemma dishes_query:
  "strip ''tell me about the dishes'' = ''tell me about the dishes''"
  "\<not> is_greeting ''tell me about the dishes''"
  by code_simp+

lemma verbose_raises:
  "post_process verbose_answer ''tell me about the dishes''
     = Inl (no_attribute ''IndexManager'' ''_compress_verbose_response'')"
  by code_simp

text \<open>
  Claim C5 at a candidate answer with \<^verbatim>\<open>This dish\<close> four times. The branch for verbose
  answers calls the method that the class does not have, and the answer of the query
  is the text of the \<^verbatim>\<open>AttributeError\<close>, not a compressed candidate.
\<close>

theorem verbose_answer_raises:
  "count verbose_answer ''This dish'' = 4
   \<and> query (llm_says ''Hi'') (Some (index_answering verbose_answer)) ''tell me about the dishes''
       = (''[Unexpected Error During Query] '' @ quoted ''IndexManager''
            @ '' object has no attribute '' @ quoted ''_compress_verbose_response'',
          [Retrieve ''tell me about the dishes'', EngineQuery ''tell me about the dishes''])"
proof -
  have "count verbose_answer ''This dish'' = 4" by code_simp
  moreover have "verbose_answer \<noteq> []" by (simp add: verbose_answer_def)
  ultimately show ?thesis
    by (simp add: query_def index_answering_grounded dishes_query verbose_raises no_attribute_def)
qed

section \<open>The HTTP endpoint: the contract\<close>

lemma query_text_of_json:
  assumes "reads_json req" and "json_body req = Inr (JObject kvs)"
  shows "query_text_of req = Inr (py_or (dict_get kvs ''query'') (dict_get kvs ''message''))"
  using assms by (auto simp: query_text_of_def reads_json_def query_or_message_def)

lemma query_text_of_form:
  assumes "reads_form req" and "form_body req = Inr form"
  shows "query_text_of req = Inr (py_or (form_get form ''query'') (form_get form ''message''))"
  using assms by (auto simp: query_text_of_def reads_form_def)

lemma rag_query_string:
  assumes "query_text_of req = Inr (JString s)" and "s \<noteq> []"
  shows "rag_query llm_complete idx coerce utcnow req
           = QueryResponse (fst (query llm_complete idx s)) s (utcnow @ ''Z'')"
  using assms by (simp add: rag_query_def query_value_def validate_str_def Let_def)

lemma rag_query_400:
  assumes "status_code (rag_query llm_complete idx coerce utcnow req) = 400"
  shows "\<exists>v. query_text_of req = Inr v \<and> \<not> truthy v"
  using assms
  by (auto simp: rag_query_def Let_def split: sum.splits if_splits)

text \<open>
  Claim C10. The endpoint answers 400 only when the body it reads yields no text: then
  neither \<^verbatim>\<open>query\<close> nor \<^verbatim>\<open>message\<close> of the JSON object, or of the form, holds a
  value that Python counts as true. A request whose JSON object, or form, holds a
  string that is not empty under \<^verbatim>\<open>query\<close>, or under \<^verbatim>\<open>message\<close> with nothing
  under \<^verbatim>\<open>query\<close>, is answered with a \<^verbatim>\<open>QueryResponse\<close> of the answer of the
  query, the text itself and the UTC time with a \<^verbatim>\<open>Z\<close>.
\<close>

theorem rag_query_contract:
  "(status_code (rag_query llm_complete idx coerce utcnow req) = 400 \<longrightarrow>
      (\<forall>kvs. reads_json req \<and> json_body req = Inr (JObject kvs) \<longrightarrow>
         \<not> truthy (dict_get kvs ''query'') \<and> \<not> truthy (dict_get kvs ''message''))
      \<and> (\<forall>form. reads_form req \<and> form_body req = Inr form \<longrightarrow>
         form ''query'' \<in> {None, Some []} \<and> form ''message'' \<in> {None, Some []}))
   \<and> (\<forall>kvs s. reads_json req \<and> json_body req = Inr (JObject kvs) \<and> s \<noteq> []
         \<and> (dict_get kvs ''query'' = JString s
              \<or> \<not> truthy (dict_get kvs ''query'') \<and> dict_get kvs ''message'' = JString s) \<longrightarrow>
         rag_query llm_complete idx coerce utcnow req
           = QueryResponse (fst (query llm_complete idx s)) s (utcnow @ ''Z''))
   \<and> (\<forall>form s. reads_form req \<and> form_body req = Inr form \<and> s \<noteq> []
         \<and> (form ''query'' = Some s
              \<or> form ''query'' \<in> {None, Some []} \<and> form ''message'' = Some s) \<longrightarrow>
         rag_query llm_complete idx coerce utcnow req
           = QueryResponse (fst (query llm_complete idx s)) s (utcnow @ ''Z''))"
proof (intro conjI impI allI)
  fix kvs
  assume "status_code (rag_query llm_complete idx coerce utcnow req) = 400"
    and "reads_json req \<and> json_body req = Inr (JObject kvs)"
  then have "\<not> truthy (py_or (dict_get kvs ''query'') (dict_get kvs ''message''))"
    using rag_query_400 query_text_of_json by fastforce
  then show "\<not> truthy (dict_get kvs ''query'')" and "\<not> truthy (dict_get kvs ''message'')"
    by (auto simp: py_or_def split: if_splits)
next
  fix form
  assume "status_code (rag_query llm_complete idx coerce utcnow req) = 400"
    and "reads_form req \<and> form_body req = Inr form"
  then have *: "\<not> truthy (py_or (form_get form ''query'') (form_get form ''message''))"
    using rag_query_400 query_text_of_form by fastforce
  show "form ''query'' \<in> {None, Some []}" and "form ''message'' \<in> {None, Some []}"
    using * by (auto simp: py_or_def form_get_def split: if_splits option.splits)
next
  fix kvs s
  assume a: "reads_json req \<and> json_body req = Inr (JObject kvs) \<and> s \<noteq> []
         \<and> (dict_get kvs ''query'' = JString s
              \<or> \<not> truthy (dict_get kvs ''query'') \<and> dict_get kvs ''message'' = JString s)"
  then have "py_or (dict_get kvs ''query'') (dict_get kvs ''message'') = JString s"
    by (auto simp: py_or_def)
  then have "query_text_of req = Inr (JString s)"
    using a query_text_of_json by simp
  then show "rag_query llm_complete idx coerce utcnow req
           = QueryResponse (fst (query llm_complete idx s)) s (utcnow @ ''Z'')"
    using a by (simp add: rag_query_string)
next
  fix form s
  assume a: "reads_form req \<and> form_body req = Inr form \<and> s \<noteq> []
         \<and> (form ''query'' = Some s
              \<or> form ''query'' \<in> {None, Some []} \<and> form ''message'' = Some s)"
  then have "py_or (form_get form ''query'') (form_get form ''message'') = JString s"
    by (auto simp: py_or_def form_get_def)
  then have "query_text_of req = Inr (JString s)"
    using a query_text_of_form by simp
  then show "rag_query llm_complete idx coerce utcnow req
           = QueryResponse (fst (query llm_complete idx s)) s (utcnow @ ''Z'')"
    using a by (simp add: rag_query_string)
qed

lemma hello_answer: "query llm_complete idx ''Hello!'' = (greeting_reply, [])"
  by (simp add: query_def query_reads_def query_body_def is_greeting_def strip_hello hello_clean
      greetings_def)

lemma request_types:
  "reads_json json_request" "reads_form form_request" "reads_json empty_request"
  unfolding reads_json_def reads_form_def form_type_def json_request_def form_request_def
    empty_request_def
  by code_simp+

theorem rag_query_contract_witness:
  "rag_query (llm_says ''Hi'') (Some empty_index) strict_str ''2024-05-01T12:00:00'' json_request
     = QueryResponse greeting_reply ''Hello!'' ''2024-05-01T12:00:00Z''
   \<and> rag_query (llm_says ''Hi'') (Some empty_index) strict_str ''2024-05-01T12:00:00'' form_request
     = QueryResponse greeting_reply ''Hello!'' ''2024-05-01T12:00:00Z''
   \<and> status_code (rag_query (llm_says ''Hi'') (Some empty_index) strict_str
        ''2024-05-01T12:00:00'' empty_request) = 400
   \<and> \<not> truthy (dict_get [] ''query'') \<and> \<not> truthy (dict_get [] ''message'')"
proof -
  note c = rag_query_contract [of "llm_says ''Hi''" "Some empty_index" strict_str
      "''2024-05-01T12:00:00''"]
  have j: "json_body json_request = Inr (JObject [(''query'', JString ''Hello!'')])"
    and f: "form_body form_request = Inr [''message'' \<mapsto> ''Hello!'']"
    and e: "json_body empty_request = Inr (JObject [])"
    by (simp_all add: json_request_def form_request_def empty_request_def)
  have 1: "rag_query (llm_says ''Hi'') (Some empty_index) strict_str ''2024-05-01T12:00:00'' json_request
     = QueryResponse greeting_reply ''Hello!'' ''2024-05-01T12:00:00Z''"
    using c [of json_request] request_types(1) j
    by (simp add: dict_get_def hello_answer)
  have 2: "rag_query (llm_says ''Hi'') (Some empty_index) strict_str ''2024-05-01T12:00:00'' form_request
     = QueryResponse greeting_reply ''Hello!'' ''2024-05-01T12:00:00Z''"
    using c [of form_request] request_types(2) f
    by (simp add: hello_answer)
  have 3: "status_code (rag_query (llm_says ''Hi'') (Some empty_index) strict_str
        ''2024-05-01T12:00:00'' empty_request) = 400"
    using request_types(3) e
    by (simp add: rag_query_def query_text_of_json py_or_def dict_get_def)
  have 4: "\<not> truthy (dict_get [] ''query'') \<and> \<not> truthy (dict_get [] ''message'')"
    using c [of empty_request] 3 request_types(3) e by blast
  show ?thesis using 1 2 3 4 by blast
qed

section \<open>Answers are not empty\<close>

text \<open>
  A string is blank when all its characters are white space; \<^const>\<open>strip\<close> leaves
  the empty string of exactly the blank strings.
\<close>

lemma list_all_dropWhile: "list_all P (dropWhile P xs) \<longleftrightarrow> list_all P xs"
proof
  assume a: "list_all P (dropWhile P xs)"
  have "dropWhile P xs = []"
  proof (rule ccontr)
    assume "dropWhile P xs \<noteq> []"
    then have "\<not> P (hd (dropWhile P xs))" by (rule hd_dropWhile)
    moreover have "hd (dropWhile P xs) \<in> set (dropWhile P xs)"
      using \<open>dropWhile P xs \<noteq> []\<close> by simp
    ultimately show False using a by (auto simp: list_all_iff)
  qed
  then show "list_all P xs" by (simp add: list_all_iff)
next
  assume "list_all P xs"
  then show "list_all P (dropWhile P xs)"
    by (auto simp: list_all_iff dest: set_dropWhileD)
qed

lemma strip_Nil_iff: "strip s = [] \<longleftrightarrow> list_all is_space s"
proof -
  have "strip s = [] \<longleftrightarrow> list_all is_space (rev (dropWhile is_space s))"
    by (simp add: strip_def list_all_iff)
  also have "\<dots> \<longleftrightarrow> list_all is_space (dropWhile is_space s)"
    by (simp add: list_all_iff)
  finally show ?thesis by (simp add: list_all_dropWhile)
qed

lemma strip_blank_iff: "list_all is_space (strip s) \<longleftrightarrow> list_all is_space s"
proof -
  have "list_all is_space (strip s)
          \<longleftrightarrow> list_all is_space (dropWhile is_space (rev (dropWhile is_space s)))"
    by (simp add: strip_def list_all_iff)
  also have "\<dots> \<longleftrightarrow> list_all is_space (rev (dropWhile is_space s))"
    by (rule list_all_dropWhile)
  also have "\<dots> \<longleftrightarrow> list_all is_space (dropWhile is_space s)"
    by (simp add: list_all_iff)
  finally show ?thesis by (simp add: list_all_dropWhile)
qed

lemma digit_not_space: "is_digit c \<Longrightarrow> \<not> is_space c"
  by (auto simp: is_digit_def is_space_def)

lemma match_spaces_Some:
  "match_spaces s = Some n \<Longrightarrow> list_all is_space (take n s)"
  by (auto simp: match_spaces_def Let_def list_all_iff takeWhile_eq_take [symmetric]
      dest: set_takeWhileD split: if_splits)

lemma sub_spaces_blank: "list_all is_space (sub_all match_spaces '' '' s) \<Longrightarrow> list_all is_space s"
proof (induction match_spaces "'' ''" s rule: sub_all.induct)
  case 1
  then show ?case by simp
next
  case (2 c cs)
  show ?case
  proof (cases "match_spaces (c # cs)")
    case None
    then show ?thesis using 2 by simp
  next
    case (Some n)
    show ?thesis
    proof (cases "0 < n")
      case True
      then have "list_all is_space (drop n (c # cs))"
        using 2 Some by simp
      moreover have "list_all is_space (take n (c # cs))"
        using Some by (rule match_spaces_Some)
      ultimately have "list_all is_space (take n (c # cs) @ drop n (c # cs))"
        by (simp only: list_all_append)
      then show ?thesis by (simp only: append_take_drop_id)
    next
      case False
      then show ?thesis using 2 Some by simp
    qed
  qed
qed

lemma sub_numbering_blank:
  assumes "list_all is_space (sub_numbering line)" and "\<not> is_number_line line"
  shows "list_all is_space line"
proof (cases "takeWhile is_digit line \<noteq> [] \<and> startswith (dropWhile is_digit line) ''.''")
  case False
  then show ?thesis using assms(1) by (auto simp: sub_numbering_def Let_def)
next
  case True
  define d where "d = takeWhile is_digit line"
  define r where "r = dropWhile is_digit line"
  obtain r' where r': "r = CHR ''.'' # r'"
    using True by (auto simp: r_def startswith_iff)
  have "line = d @ r"
    unfolding d_def r_def by simp
  then have line: "line = d @ CHR ''.'' # r'"
    using r' by simp
  have dne: "d \<noteq> []" using True by (simp add: d_def)
  have dd: "\<forall>c \<in> set d. is_digit c" by (auto simp: d_def dest: set_takeWhileD)
  have "sub_numbering line = dropWhile is_space r'"
    using True r' by (simp add: sub_numbering_def Let_def r_def [symmetric])
  then have blank: "list_all is_space r'"
    using assms(1) by (simp add: list_all_dropWhile)
  let ?dd = "\<lambda>c. is_digit c \<or> c = CHR ''.''"
  have hd: "\<not> is_space (hd line)"
    using dne dd line by (cases d) (auto simp: digit_not_space)
  have lne: "line \<noteq> []" using line by simp
  have nospace: "dropWhile is_space line = line"
    using hd lne by (cases line) auto
  have tw: "takeWhile ?dd line = d @ CHR ''.'' # takeWhile ?dd r'"
    using dd by (simp add: line takeWhile_append2)
  have dw: "drop (length (takeWhile ?dd line)) line = dropWhile ?dd r'"
    using dd by (simp add: dropWhile_eq_drop [symmetric] line dropWhile_append2)
  have "list_all is_space (dropWhile ?dd r')"
    using blank by (auto simp: list_all_iff dest: set_dropWhileD)
  then have "is_number_line line"
    using tw dw by (simp add: is_number_line_def Let_def nospace)
  then show ?thesis using assms(2) by simp
qed

lemma keep_line_clean:
  assumes "keep_line line"
  shows "\<not> list_all is_space (clean_line line)"
proof
  assume "list_all is_space (clean_line line)"
  then have "list_all is_space (sub_spaces (sub_numbering line))"
    by (simp add: clean_line_def strip_blank_iff)
  then have "list_all is_space (sub_numbering line)"
    unfolding sub_spaces_def by (rule sub_spaces_blank)
  then have "list_all is_space line"
    using assms by (auto simp: keep_line_def intro: sub_numbering_blank)
  then have "strip line = []" by (simp add: strip_Nil_iff)
  then show False using assms by (simp add: keep_line_def)
qed

lemma join_blank: "list_all is_space (join sep ps) \<Longrightarrow> p \<in> set ps \<Longrightarrow> list_all is_space p"
  by (induction sep ps rule: join.induct) auto

lemma cleaned_lines_ink:
  assumes "cleaned_lines text \<noteq> []"
  shows "\<not> list_all is_space (join sep (cleaned_lines text))"
proof
  assume b: "list_all is_space (join sep (cleaned_lines text))"
  obtain l where l: "l \<in> set (cleaned_lines text)"
    using assms by (cases "cleaned_lines text") auto
  then obtain line where "keep_line line" "l = clean_line line"
    by (auto simp: cleaned_lines_def)
  then have "\<not> list_all is_space l" using keep_line_clean by simp
  then show False using join_blank [OF b l] by simp
qed

lemma add_wrapper_ink: "\<not> list_all is_space text \<Longrightarrow> \<not> list_all is_space (add_wrapper text q)"
  by (simp add: add_wrapper_def)

lemma first_sentences_ink: "\<not> list_all is_space (first_sentences n text)"
  by (simp add: first_sentences_def is_space_def)

lemma extract_meaningful_response_not_empty: "extract_meaningful_response text q \<noteq> []"
proof (cases "cleaned_lines text = []")
  case True
  then show ?thesis by (simp add: extract_meaningful_response_def)
next
  case False
  then have "\<not> list_all is_space (join '' '' (cleaned_lines text))"
    by (rule cleaned_lines_ink)
  then show ?thesis
    using False
    by (simp add: extract_meaningful_response_def Let_def strip_Nil_iff add_wrapper_ink
        first_sentences_ink)
qed

text \<open>The same for the field-label cleanup: each of its three results starts with a letter.\<close>

lemma lower_char_other: "\<not> is_upper c \<Longrightarrow> lower_char c = c"
proof -
  assume "\<not> is_upper c"
  then have "c \<notin> set ''ABCDEFGHIJKLMNOPQRSTUVWXYZ''" unfolding is_upper_def .
  then have "map_of (zip ''ABCDEFGHIJKLMNOPQRSTUVWXYZ'' ''abcdefghijklmnopqrstuvwxyz'') c = None"
    by (subst map_of_zip_is_None) simp_all
  then show ?thesis by (simp only: lower_char_def option.case)
qed

lemma space_not_upper: "is_space c \<Longrightarrow> \<not> is_upper c"
  unfolding is_space_def is_upper_def by (elim disjE | simp)+

lemma lower_char_space: "is_space x \<Longrightarrow> lower_char x = x"
  by (simp add: lower_char_other space_not_upper)

lemma startswith_lower_ink:
  assumes "startswith (lower t) (c # w)" and "\<not> is_space c"
  shows "\<not> list_all is_space t"
proof (cases t)
  case Nil
  then show ?thesis using assms(1) by (simp add: lower_def)
next
  case (Cons x xs)
  then have "lower_char x = c" using assms(1) by (simp add: lower_def)
  then have "\<not> is_space x" using assms(2) lower_char_space by force
  then show ?thesis using Cons by simp
qed

lemma friendly_prefix_ink:
  assumes "list_ex (startswith (lower t)) friendly_prefixes"
  shows "\<not> list_all is_space t"
proof -
  obtain w where w: "w \<in> set friendly_prefixes" "startswith (lower t) w"
    using assms by (auto simp: list_ex_iff)
  from w(1) obtain c w' where "w = c # w'" "\<not> is_space c"
    by (auto simp: friendly_prefixes_def is_space_def)
  then show ?thesis using w(2) startswith_lower_ink by blast
qed

lemma top_items_response_not_empty: "top_items_response items \<noteq> []"
  by (simp add: top_items_response_def strip_Nil_iff is_space_def)

lemma recommendation_response_not_empty: "recommendation_response text \<noteq> []"
  by (simp add: recommendation_response_def Let_def strip_Nil_iff is_space_def)

lemma add_prefix_ink: "\<not> list_all is_space (add_prefix t)"
proof (cases "list_ex (startswith (lower t)) friendly_prefixes")
  case True
  then have "\<not> list_all is_space t" by (rule friendly_prefix_ink)
  then show ?thesis using True by (simp add: add_prefix_def)
next
  case False
  then show ?thesis by (simp add: add_prefix_def is_space_def)
qed

lemma default_cleanup_not_empty: "default_cleanup text \<noteq> []"
  by (simp add: default_cleanup_def Let_def strip_Nil_iff add_prefix_ink)

lemma clean_and_format_response_not_empty: "clean_and_format_response text q \<noteq> []"
  by (simp add: clean_and_format_response_def Let_def default_cleanup_not_empty
      top_items_response_not_empty recommendation_response_not_empty)

lemma first_sentences_not_empty: "first_sentences n text \<noteq> []"
  by (simp add: first_sentences_def)

lemma post_process_empty: "post_process text q = Inr [] \<Longrightarrow> text = []"
  by (auto simp: post_process_def Let_def extract_meaningful_response_not_empty
      clean_and_format_response_not_empty first_sentences_not_empty split: if_splits)

section \<open>The query never raises\<close>

text \<open>The paths through the \<^verbatim>\<open>try\<close> block, one equation each.\<close>

lemma query_body_paths:
  "is_greeting (strip q) \<Longrightarrow> query_body llm i1 i2 q = (Inr greeting_reply, [])"
  "\<not> is_greeting (strip q) \<Longrightarrow> length (strip q) < 3
     \<Longrightarrow> query_body llm i1 i2 q = (Inr ask_specific_reply, [])"
  "\<not> is_greeting (strip q) \<Longrightarrow> \<not> length (strip q) < 3
     \<Longrightarrow> query_body llm None i2 q = (Inl (no_attribute ''NoneType'' ''as_retriever''), [])"
  "\<not> is_greeting (strip q) \<Longrightarrow> \<not> length (strip q) < 3 \<Longrightarrow> retrieve idx (strip q) = Inl e
     \<Longrightarrow> query_body llm (Some idx) i2 q = (Inl e, [Retrieve (strip q)])"
  "\<not> is_greeting (strip q) \<Longrightarrow> \<not> length (strip q) < 3 \<Longrightarrow> retrieve idx (strip q) = Inr ns
     \<Longrightarrow> no_context ns \<Longrightarrow> is_order_related (strip q)
     \<Longrightarrow> query_body llm (Some idx) i2 q = (Inr no_data_reply, [Retrieve (strip q)])"
  "\<not> is_greeting (strip q) \<Longrightarrow> \<not> length (strip q) < 3 \<Longrightarrow> retrieve idx (strip q) = Inr ns
     \<Longrightarrow> no_context ns \<Longrightarrow> \<not> is_order_related (strip q)
     \<Longrightarrow> llm (fallback_prompt (strip q)) = Inl e
     \<Longrightarrow> query_body llm (Some idx) i2 q
           = (Inl e, [Retrieve (strip q), Complete (fallback_prompt (strip q))])"
  "\<not> is_greeting (strip q) \<Longrightarrow> \<not> length (strip q) < 3 \<Longrightarrow> retrieve idx (strip q) = Inr ns
     \<Longrightarrow> no_context ns \<Longrightarrow> \<not> is_order_related (strip q)
     \<Longrightarrow> llm (fallback_prompt (strip q)) = Inr t
     \<Longrightarrow> query_body llm (Some idx) i2 q
           = (Inr (strip t), [Retrieve (strip q), Complete (fallback_prompt (strip q))])"
  "\<not> is_greeting (strip q) \<Longrightarrow> \<not> length (strip q) < 3 \<Longrightarrow> retrieve idx (strip q) = Inr ns
     \<Longrightarrow> \<not> no_context ns
     \<Longrightarrow> query_body llm (Some idx) None q
           = (Inl (no_attribute ''NoneType'' ''as_query_engine''), [Retrieve (strip q)])"
  "\<not> is_greeting (strip q) \<Longrightarrow> \<not> length (strip q) < 3 \<Longrightarrow> retrieve idx (strip q) = Inr ns
     \<Longrightarrow> \<not> no_context ns \<Longrightarrow> engine_query idx2 (strip q) = Inl e
     \<Longrightarrow> query_body llm (Some idx) (Some idx2) q
           = (Inl e, [Retrieve (strip q), EngineQuery (strip q)])"
  "\<not> is_greeting (strip q) \<Longrightarrow> \<not> length (strip q) < 3 \<Longrightarrow> retrieve idx (strip q) = Inr ns
     \<Longrightarrow> \<not> no_context ns \<Longrightarrow> engine_query idx2 (strip q) = Inr resp
     \<Longrightarrow> query_body llm (Some idx) (Some idx2) q
           = (post_process (candidate_text resp) (strip q),
              [Retrieve (strip q), EngineQuery (strip q)])"
  by (simp_all add: query_body_def Let_def)

lemma error_reply_not_empty: "error_reply e \<noteq> []"
  by (cases e) simp_all

lemma fixed_replies_not_empty:
  "greeting_reply \<noteq> []" "ask_specific_reply \<noteq> []" "no_data_reply \<noteq> []"
  by (simp_all add: greeting_reply_def ask_specific_reply_def no_data_reply_def)

text \<open>
  Claim C3, as the code has it. The query returns an answer for every input and raises
  nothing: an exception raised inside the \<^verbatim>\<open>try\<close> block (by the retriever, the
  language model, the query engine or the call of the missing method) becomes the reply
  of the \<^verbatim>\<open>except\<close> clause that catches it, a text that names the error and is
  not empty, and not the text of an earlier stage or a fixed apology. An answer is
  empty in two cases only, both made of generated text: the open-domain fallback whose
  generated text is blank, and a grounded answer whose candidate text is empty.
\<close>

theorem query_answers_every_input:
  "(\<forall>e calls. query_body llm_complete index1 index2 q = (Inl e, calls) \<longrightarrow>
      query_reads llm_complete index1 index2 q = (error_reply e, calls) \<and> error_reply e \<noteq> [])
   \<and> (fst (query_reads llm_complete index1 index2 q) = [] \<longrightarrow>
        (\<exists>idx retrieved_nodes t.
            index1 = Some idx \<and> retrieve idx (strip q) = Inr retrieved_nodes
            \<and> no_context retrieved_nodes \<and> \<not> is_order_related (strip q)
            \<and> llm_complete (fallback_prompt (strip q)) = Inr t \<and> list_all is_space t)
        \<or> (\<exists>idx retrieved_nodes idx2 resp.
            index1 = Some idx \<and> retrieve idx (strip q) = Inr retrieved_nodes
            \<and> \<not> no_context retrieved_nodes
            \<and> index2 = Some idx2 \<and> engine_query idx2 (strip q) = Inr resp
            \<and> candidate_text resp = []))"
proof (intro conjI allI impI)
  fix e calls
  assume "query_body llm_complete index1 index2 q = (Inl e, calls)"
  then show "query_reads llm_complete index1 index2 q = (error_reply e, calls)"
    by (simp add: query_reads_def)
  show "error_reply e \<noteq> []" by (rule error_reply_not_empty)
next
  assume empty: "fst (query_reads llm_complete index1 index2 q) = []"
  let ?fallback = "\<exists>idx retrieved_nodes t.
            index1 = Some idx \<and> retrieve idx (strip q) = Inr retrieved_nodes
            \<and> no_context retrieved_nodes \<and> \<not> is_order_related (strip q)
            \<and> llm_complete (fallback_prompt (strip q)) = Inr t \<and> list_all is_space t"
  let ?grounded = "\<exists>idx retrieved_nodes idx2 resp.
            index1 = Some idx \<and> retrieve idx (strip q) = Inr retrieved_nodes
            \<and> \<not> no_context retrieved_nodes
            \<and> index2 = Some idx2 \<and> engine_query idx2 (strip q) = Inr resp
            \<and> candidate_text resp = []"
  obtain r calls where body: "query_body llm_complete index1 index2 q = (r, calls)"
    by (cases "query_body llm_complete index1 index2 q")
  have r: "r = Inr []"
  proof (cases r)
    case (Inl e)
    then show ?thesis using empty body error_reply_not_empty by (simp add: query_reads_def)
  next
    case (Inr a)
    then show ?thesis using empty body by (simp add: query_reads_def)
  qed
  have g: "\<not> is_greeting (strip q)"
    using body r fixed_replies_not_empty query_body_paths(1) [of q llm_complete index1 index2]
    by auto
  have l: "\<not> length (strip q) < 3"
    using body r g fixed_replies_not_empty query_body_paths(2) [of q llm_complete index1 index2]
    by auto
  obtain idx where idx: "index1 = Some idx"
    using body r query_body_paths(3) [OF g l, of llm_complete index2] by (cases index1) auto
  obtain retrieved_nodes where nodes: "retrieve idx (strip q) = Inr retrieved_nodes"
    using body r idx query_body_paths(4) [OF g l, of idx _ llm_complete index2]
    by (cases "retrieve idx (strip q)") auto
  show "?fallback \<or> ?grounded"
  proof (cases "no_context retrieved_nodes")
    case True
    have o: "\<not> is_order_related (strip q)"
      using body r idx fixed_replies_not_empty
        query_body_paths(5) [OF g l nodes True, of llm_complete index2]
      by auto
    obtain t where t: "llm_complete (fallback_prompt (strip q)) = Inr t"
      using body r idx query_body_paths(6) [where llm = llm_complete, OF g l nodes True o, of _ index2]
      by (cases "llm_complete (fallback_prompt (strip q))") auto
    have "strip t = []"
      using body r idx query_body_paths(7) [where llm = llm_complete, OF g l nodes True o t, of index2] by simp
    then have "list_all is_space t" by (simp add: strip_Nil_iff)
    then have ?fallback using idx nodes True o t by blast
    then show ?thesis ..
  next
    case False
    obtain idx2 where idx2: "index2 = Some idx2"
      using body r idx query_body_paths(8) [OF g l nodes False, of llm_complete]
      by (cases index2) auto
    obtain resp where resp: "engine_query idx2 (strip q) = Inr resp"
      using body r idx idx2 query_body_paths(9) [OF g l nodes False, of idx2 _ llm_complete]
      by (cases "engine_query idx2 (strip q)") auto
    have "post_process (candidate_text resp) (strip q) = Inr []"
      using body r idx idx2 query_body_paths(10) [OF g l nodes False resp, of llm_complete]
      by simp
    then have "candidate_text resp = []" by (rule post_process_empty)
    then have ?grounded using idx nodes False idx2 resp by blast
    then show ?thesis ..
  qed
qed

lemma how_are_you:
  "strip ''how are you'' = ''how are you''"
  "\<not> is_greeting ''how are you''"
  "\<not> is_order_related ''how are you''"
  "strip '' '' = []"
  by code_simp+

lemma blank_fallback:
  "query_reads (llm_says '' '') (Some empty_index) (Some empty_index) ''how are you''
     = ([], [Retrieve ''how are you'', Complete (fallback_prompt ''how are you'')])"
proof -
  have "retrieve empty_index (strip ''how are you'') = Inr []"
    by (simp add: empty_index_def)
  moreover have "no_context []" by (simp add: no_context_def)
  moreover have "llm_says '' '' (fallback_prompt (strip ''how are you'')) = Inr '' ''"
    by (simp add: llm_says_def)
  ultimately have "query_body (llm_says '' '') (Some empty_index) (Some empty_index) ''how are you''
      = (Inr (strip '' ''), [Retrieve (strip ''how are you''),
           Complete (fallback_prompt (strip ''how are you''))])"
    using how_are_you(1-3) by (intro query_body_paths(7)) simp_all
  then show ?thesis by (simp add: query_reads_def how_are_you)
qed

text \<open>
  Claim C3 as the specification states it fails in its last part: where nothing is
  retrieved for a query without a domain keyword and the language model answers with
  a blank, the answer of the query is the empty string.
\<close>

theorem blank_generation_gives_empty_answer:
  "fst (query (llm_says '' '') (Some empty_index) ''how are you'') = []"
  by (simp add: query_def blank_fallback)

theorem query_answers_every_input_witness:
  "query_reads (llm_says ''Hi'') None None ''how are you''
     = (error_reply (no_attribute ''NoneType'' ''as_retriever''), [])
   \<and> error_reply (no_attribute ''NoneType'' ''as_retriever'') \<noteq> []
   \<and> fst (query_reads (llm_says '' '') (Some empty_index) (Some empty_index) ''how are you'') = []
   \<and> (\<exists>t. llm_says '' '' (fallback_prompt (strip ''how are you'')) = Inr t \<and> list_all is_space t)"
proof -
  have body: "query_body (llm_says ''Hi'') None None ''how are you''
      = (Inl (no_attribute ''NoneType'' ''as_retriever''), [])"
    using how_are_you(1,2) by (intro query_body_paths(3)) simp_all
  have 1: "query_reads (llm_says ''Hi'') None None ''how are you''
     = (error_reply (no_attribute ''NoneType'' ''as_retriever''), [])
   \<and> error_reply (no_attribute ''NoneType'' ''as_retriever'') \<noteq> []"
    using query_answers_every_input [of "llm_says ''Hi''" None None "''how are you''"] body
    by blast
  have empty: "fst (query_reads (llm_says '' '') (Some empty_index) (Some empty_index)
      ''how are you'') = []"
    by (simp add: blank_fallback)
  have "retrieve empty_index (strip ''how are you'') = Inr []"
    by (simp add: empty_index_def)
  moreover have "no_context []" by (simp add: no_context_def)
  ultimately have 2: "\<exists>t. llm_says '' '' (fallback_prompt (strip ''how are you'')) = Inr t
      \<and> list_all is_space t"
    using query_answers_every_input [of "llm_says '' ''" "Some empty_index" "Some empty_index"
        "''how are you''"] empty
    by auto
  show ?thesis using 1 empty 2 by blast
qed

section \<open>Sentences\<close>

text \<open>
  What \<^const>\<open>split\<close> does at the first separator and with a text that has none;
  no piece holds the separator.
\<close>

lemma split_not_Nil: "split s sep \<noteq> []"
  by (induction s sep rule: split.induct) (auto split: list.splits)

lemma startswith_append: "startswith s p \<Longrightarrow> startswith (s @ t) p"
  by (auto simp: startswith_iff)

lemma split_length_Cons:
  "\<not> startswith (c # s) sep \<Longrightarrow> length (split (c # s) sep) = length (split s sep)"
  using split_not_Nil [of s sep] by (cases "split s sep") auto

lemma split_without_sep: "\<not> contains s sep \<Longrightarrow> split s sep = [s]"
  by (induction s) auto

lemma split_at_first_sep:
  assumes "sep \<noteq> []" and "\<not> contains (a @ butlast sep) sep"
  shows "split (a @ sep @ r) sep = a # split r sep"
  using assms(2)
proof (induction a)
  case Nil
  obtain c cs where sep: "sep = c # cs" using assms(1) by (cases sep) auto
  have "startswith (sep @ r) sep" by (simp add: startswith_iff)
  then show ?case using sep by simp
next
  case (Cons x a)
  have no: "\<not> startswith ((x # a) @ butlast sep) sep" and rest: "\<not> contains (a @ butlast sep) sep"
    using Cons.prems by auto
  have "\<not> startswith ((x # a) @ sep @ r) sep"
  proof
    assume "startswith ((x # a) @ sep @ r) sep"
    then obtain t where t: "(x # a) @ sep @ r = sep @ t" by (auto simp: startswith_iff)
    have sep: "sep = butlast sep @ [last sep]" using assms(1) by simp
    define u where "u = (x # a) @ butlast sep"
    have len: "length sep \<le> length u"
      using assms(1) by (simp add: u_def)
    have eq: "(x # a) @ sep @ r = u @ ([last sep] @ r)"
      unfolding u_def using sep by (metis append.assoc)
    have "u @ ([last sep] @ r) = sep @ t"
      unfolding eq [symmetric] by (rule t)
    then obtain w where "u = sep @ w \<or> u @ w = sep"
      by (auto simp: append_eq_append_conv2)
    then have "\<exists>w. u = sep @ w"
    proof
      assume "u = sep @ w"
      then show ?thesis by blast
    next
      assume e: "u @ w = sep"
      then have "length u + length w = length sep" by (metis length_append)
      then have "length w = 0" using len by arith
      then have "w = []" by simp
      then have "u = sep @ []" using e by simp
      then show ?thesis by blast
    qed
    then have "startswith ((x # a) @ butlast sep) sep"
      unfolding startswith_iff u_def .
    then show False using no by simp
  qed
  then show ?case using Cons.IH [OF rest] by simp
qed

lemma split_first_piece: "split s sep = x # xs \<Longrightarrow> \<exists>t. s = x @ t"
proof (induction s sep arbitrary: x xs rule: split.induct)
  case (1 sep)
  then show ?case by auto
next
  case (2 d ds sep)
  then show ?case by (auto split: if_splits list.splits)
qed

lemma split_pieces_without_sep:
  "sep \<noteq> [] \<Longrightarrow> p \<in> set (split s sep) \<Longrightarrow> \<not> contains p sep"
proof (induction s sep arbitrary: p rule: split.induct)
  case (1 sep)
  then show ?case by (cases sep) auto
next
  case (2 c cs sep)
  show ?case
  proof (cases "startswith (c # cs) sep")
    case True
    then have "p = [] \<or> p \<in> set (split (drop (length sep) (c # cs)) sep)"
      using 2(3,4) by auto
    then show ?thesis using 2(1) [OF _ 2(3)] True 2(3) by (cases sep) auto
  next
    case False
    obtain x xs where sp: "split cs sep = x # xs"
      using split_not_Nil [of cs sep] by (cases "split cs sep") auto
    then have p: "p = c # x \<or> p \<in> set xs" using 2(4) False by auto
    have ih: "\<And>p. p \<in> set (x # xs) \<Longrightarrow> \<not> contains p sep"
      using 2(2) [OF _ 2(3)] False sp by auto
    show ?thesis
    proof (cases "p = c # x")
      case True
      have "\<not> startswith (c # x) sep"
      proof
        assume a: "startswith (c # x) sep"
        obtain t where "cs = x @ t" using split_first_piece [OF sp] by auto
        then have "c # cs = (c # x) @ t" by simp
        then have "startswith (c # cs) sep" using a startswith_append by metis
        then show False using False by simp
      qed
      then show ?thesis using True ih by auto
    next
      case False
      then show ?thesis using p ih by auto
    qed
  qed
qed

text \<open>Sentences: the separator of the source is a full stop and a space.\<close>

lemma dot_behind_piece:
  assumes "\<not> contains p ''. ''"
  shows "\<not> contains (p @ ''.'') ''. ''"
proof
  assume "contains (p @ ''.'') ''. ''"
  then obtain xs ys where e: "p @ ''.'' = xs @ ''. '' @ ys" by (auto simp: contains_iff)
  show False
  proof (cases ys rule: rev_cases)
    case Nil
    then have "p @ ''.'' = (xs @ ''.'') @ '' ''" using e by simp
    then show False by (simp only: append1_eq_conv) simp
  next
    case (snoc ys' y)
    then have "p @ ''.'' = (xs @ ''. '' @ ys') @ [y]" using e by simp
    then have "p = xs @ ''. '' @ ys'" by (simp only: append1_eq_conv)
    then show False using assms by (auto simp: contains_iff)
  qed
qed

lemma first_sentences_2_count: "length (split (first_sentences 2 text) ''. '') \<le> 2"
proof -
  obtain s0 rest where sp: "split text ''. '' = s0 # rest"
    using split_not_Nil [of "text" "''. ''"] by (cases "split text ''. ''") auto
  have piece: "\<And>p. p \<in> set (split text ''. '') \<Longrightarrow> \<not> contains (p @ ''.'') ''. ''"
    by (rule dot_behind_piece) (rule split_pieces_without_sep, simp_all)
  show ?thesis
  proof (cases rest)
    case Nil
    then have "first_sentences 2 text = s0 @ ''.''"
      using sp by (simp add: first_sentences_def)
    moreover have "split (s0 @ ''.'') ''. '' = [s0 @ ''.'']"
      using piece [of s0] sp by (intro split_without_sep) simp
    ultimately show ?thesis by simp
  next
    case (Cons s1 rest')
    then have fs: "first_sentences 2 text = s0 @ ''. '' @ (s1 @ ''.'')"
      using sp by (simp add: first_sentences_def)
    have "\<not> contains (s0 @ butlast ''. '') ''. ''"
      using piece [of s0] sp by simp
    then have "split (s0 @ ''. '' @ (s1 @ ''.'')) ''. '' = s0 # split (s1 @ ''.'') ''. ''"
      by (intro split_at_first_sep) simp_all
    moreover have "split (s1 @ ''.'') ''. '' = [s1 @ ''.'']"
      using piece [of s1] sp Cons by (intro split_without_sep) simp
    ultimately show ?thesis using fs by simp
  qed
qed

lemma split_behind_prefix:
  "CHR ''.'' \<notin> set p \<Longrightarrow> length (split (p @ s) ''. '') = length (split s ''. '')"
proof (induction p)
  case Nil
  then show ?case by simp
next
  case (Cons c p)
  then have "\<not> startswith (c # p @ s) ''. ''" by auto
  then have "length (split (c # p @ s) ''. '') = length (split (p @ s) ''. '')"
    by (rule split_length_Cons)
  then show ?case using Cons by simp
qed

lemma split_dropWhile_space:
  "length (split (dropWhile is_space s) ''. '') = length (split s ''. '')"
proof (induction s)
  case Nil
  then show ?case by simp
next
  case (Cons c s)
  show ?case
  proof (cases "is_space c")
    case True
    then have "c \<noteq> CHR ''.''" by (auto simp: is_space_def)
    then have "\<not> startswith (c # s) ''. ''" by auto
    then have "length (split (c # s) ''. '') = length (split s ''. '')"
      by (rule split_length_Cons)
    then show ?thesis using True Cons by simp
  next
    case False
    then show ?thesis by simp
  qed
qed

lemma strip_ends_with_dot: "strip (w @ ''.'') = dropWhile is_space (w @ ''.'')"
proof -
  have dot: "\<not> is_space CHR ''.''" by (simp add: is_space_def)
  then have "dropWhile is_space (w @ ''.'') = dropWhile is_space w @ ''.''"
    by (simp add: dropWhile_append3)
  then show ?thesis using dot by (simp add: strip_def)
qed

lemma add_wrapper_cases:
  "add_wrapper text q = text \<or> add_wrapper text q = ''For your allergy concern: '' @ text
   \<or> add_wrapper text q = ''Here are some great options: '' @ text"
  by (simp add: add_wrapper_def)

lemma add_wrapper_sentences:
  "length (split (add_wrapper text q) ''. '') = length (split text ''. '')"
proof -
  have "CHR ''.'' \<notin> set ''For your allergy concern: ''"
    and "CHR ''.'' \<notin> set ''Here are some great options: ''"
    by simp_all
  then show ?thesis
    using add_wrapper_cases [of "text" q] split_behind_prefix by metis
qed

lemma add_wrapper_length: "length (add_wrapper text q) \<le> length text + 29"
  using add_wrapper_cases [of "text" q] by auto

lemma strip_length: "length (strip s) \<le> length s"
proof -
  have "length (strip s) \<le> length (dropWhile is_space s)"
    unfolding strip_def by (metis length_dropWhile_le length_rev)
  then show ?thesis using length_dropWhile_le [of is_space s] by (rule le_trans)
qed

lemma recovered_first_sentences:
  "length (split (strip (add_wrapper (first_sentences 2 text) q)) ''. '') \<le> 2"
proof -
  obtain w where w: "add_wrapper (first_sentences 2 text) q = w @ ''.''"
    using add_wrapper_cases [of "first_sentences 2 text" q]
    by (auto simp: first_sentences_def)
  have "length (split (strip (w @ ''.'')) ''. '') = length (split (w @ ''.'') ''. '')"
    by (simp only: strip_ends_with_dot split_dropWhile_space)
  also have "\<dots> = length (split (first_sentences 2 text) ''. '')"
    using w add_wrapper_sentences by metis
  finally show ?thesis using w first_sentences_2_count [of "text"] by simp
qed

section \<open>The post-processing of a grounded answer\<close>

text \<open>The example candidates, evaluated.\<close>

lemma kitchen_query:
  "strip ''tell me about the kitchen'' = ''tell me about the kitchen''"
  "\<not> is_greeting ''tell me about the kitchen''"
  by code_simp+

lemma menu_query:
  "strip ''what is on the menu'' = ''what is on the menu''"
  "\<not> is_greeting ''what is on the menu''"
  by code_simp+

lemma long_answer_facts:
  "post_process long_answer ''tell me about the kitchen'' = Inr long_answer"
  "length (split long_answer ''. '') = 5"
  "\<not> has_raw_data long_answer"
  "count long_answer ''Item Name'' = 0" "count long_answer ''Title:'' = 0"
  "count long_answer ''This dish'' = 0" "count long_answer ''which means'' = 0"
  "count long_answer ''typically consists'' = 0"
  "count long_answer ''The item'' = 0" "count long_answer [CHR '' '', bullet, CHR '' ''] = 0"
  by code_simp+


lemma dump_answer_facts:
  "\<not> has_raw_data dump_answer"
  "count dump_answer ''Item Name'' = 0" "count dump_answer ''Title:'' = 0"
  "count dump_answer ''This dish'' = 0" "count dump_answer ''which means'' = 0"
  "count dump_answer ''typically consists'' = 0"
  "count dump_answer ''The item'' = 3"
  "first_sentences 2 dump_answer = ''The item Naan sold well. The item Rice sold well.''"
  "length (split dump_answer ''. '') = 3"
  by code_simp+

lemma dated_sentences_facts:
  "has_raw_data dated_sentences"
  "cleaned_lines dated_sentences \<noteq> []"
  "count (join '' '' (cleaned_lines dated_sentences)) ''.'' = 6"
  by code_simp+

lemma grounded_answer:
  assumes "\<not> is_greeting (strip q)" and "3 \<le> length (strip q)"
    and "retrieve idx1 (strip q) = Inr retrieved_nodes" and "\<not> no_context retrieved_nodes"
    and "engine_query idx2 (strip q) = Inr resp"
    and "post_process (candidate_text resp) (strip q) = Inr a"
  shows "fst (query_reads llm_complete (Some idx1) (Some idx2) q) = a"
  using query_reads_grounded [OF assms(1-5), of llm_complete] assms(6) by simp






lemma index_answering_calls:
  "t \<noteq> [] \<Longrightarrow> retrieve (index_answering t) q = Inr [\<lparr>score = Some (Finite (1 / 2))\<rparr>]"
  "t \<noteq> [] \<Longrightarrow> engine_query (index_answering t) q = Inr \<lparr>response = Some t, str = t\<rparr>"
  "t \<noteq> [] \<Longrightarrow> candidate_text \<lparr>response = Some t, str = t\<rparr> = t"
  "\<not> no_context [\<lparr>score = Some (Finite (1 / 2))\<rparr>]"
  using threshold_bounds(3)
  by (simp_all add: index_answering_def candidate_text_def no_context_def score_or_0_def)




section \<open>The caps of a grounded answer\<close>

lemma recovery_answer_caps:
  assumes "cleaned_lines t \<noteq> []"
  shows "(300 < length (join '' '' (cleaned_lines t)) \<or> 5 < count (join '' '' (cleaned_lines t)) ''.''
            \<longrightarrow> length (split (extract_meaningful_response t q) ''. '') \<le> 2)
       \<and> (\<not> (300 < length (join '' '' (cleaned_lines t))
               \<or> 5 < count (join '' '' (cleaned_lines t)) ''.'')
            \<longrightarrow> length (extract_meaningful_response t q) \<le> 329)"
proof (intro conjI impI)
  assume "300 < length (join '' '' (cleaned_lines t)) \<or> 5 < count (join '' '' (cleaned_lines t)) ''.''"
  then have "extract_meaningful_response t q
      = strip (add_wrapper (first_sentences 2 (join '' '' (cleaned_lines t))) q)"
    using assms by (simp add: extract_meaningful_response_def Let_def)
  then show "length (split (extract_meaningful_response t q) ''. '') \<le> 2"
    by (simp only: recovered_first_sentences)
next
  assume short: "\<not> (300 < length (join '' '' (cleaned_lines t))
               \<or> 5 < count (join '' '' (cleaned_lines t)) ''.'')"
  then have "extract_meaningful_response t q = strip (add_wrapper (join '' '' (cleaned_lines t)) q)"
    using assms by (simp add: extract_meaningful_response_def Let_def)
  moreover have "length (strip (add_wrapper (join '' '' (cleaned_lines t)) q))
      \<le> length (add_wrapper (join '' '' (cleaned_lines t)) q)"
    by (rule strip_length)
  moreover have "length (add_wrapper (join '' '' (cleaned_lines t)) q)
      \<le> length (join '' '' (cleaned_lines t)) + 29"
    by (rule add_wrapper_length)
  ultimately show "length (extract_meaningful_response t q) \<le> 329"
    using short by simp
qed

text \<open>
  Claim C6, as the code has it. A grounded answer has no limit of 250 characters, and
  its sentences (the pieces between a full stop and a space) are capped by the branch
  that post-processes the candidate only. In the recovery branch, where lines remain,
  the reassembled text is cut to its first two sentences when it is longer than 300
  characters or has more than five full stops, so that the answer has at most two
  sentences; otherwise the answer has at most 329 characters (300 and an opener). In
  the data-dump branch the answer has at most two sentences: it is the candidate, or
  the candidate cut to its first two sentences. A candidate that meets no condition of
  any branch is returned unchanged, whatever its length.
\<close>

theorem grounded_answer_caps:
  assumes "\<not> is_greeting (strip q)" and "3 \<le> length (strip q)"
    and "retrieve idx1 (strip q) = Inr retrieved_nodes" and "\<not> no_context retrieved_nodes"
    and "engine_query idx2 (strip q) = Inr resp"
    and "t = candidate_text resp"
    and "answer = fst (query_reads llm_complete (Some idx1) (Some idx2) q)"
  shows "(has_raw_data t \<and> cleaned_lines t \<noteq> [] \<longrightarrow>
           (300 < length (join '' '' (cleaned_lines t))
              \<or> 5 < count (join '' '' (cleaned_lines t)) ''.''
              \<longrightarrow> length (split answer ''. '') \<le> 2)
         \<and> (\<not> (300 < length (join '' '' (cleaned_lines t))
                 \<or> 5 < count (join '' '' (cleaned_lines t)) ''.'')
              \<longrightarrow> length answer \<le> 329))
    \<and> (\<not> has_raw_data t \<and> count t ''Item Name'' = 0 \<and> count t ''Title:'' = 0
         \<and> count t ''This dish'' \<le> 3 \<and> count t ''which means'' \<le> 2
         \<and> count t ''typically consists'' \<le> 2 \<longrightarrow>
           (2 < count t ''The item'' \<or> 5 < count t [CHR '' '', bullet, CHR '' '']
              \<longrightarrow> length (split answer ''. '') \<le> 2
                  \<and> (answer = t \<or> answer = first_sentences 2 t))
         \<and> (\<not> (2 < count t ''The item'' \<or> 5 < count t [CHR '' '', bullet, CHR '' ''])
              \<longrightarrow> answer = t))"
proof (intro conjI impI)
  assume r: "has_raw_data t \<and> cleaned_lines t \<noteq> []"
  then have "post_process (candidate_text resp) (strip q)
      = Inr (extract_meaningful_response t (strip q))"
    using assms(6) by (simp add: post_process_def)
  then have a: "answer = extract_meaningful_response t (strip q)"
    unfolding assms(7) by (rule grounded_answer [OF assms(1-5)])
  {
    assume "300 < length (join '' '' (cleaned_lines t))
              \<or> 5 < count (join '' '' (cleaned_lines t)) ''.''"
    then show "length (split answer ''. '') \<le> 2"
      using recovery_answer_caps [of t "strip q"] r a by blast
  }
  {
    assume "\<not> (300 < length (join '' '' (cleaned_lines t))
                 \<or> 5 < count (join '' '' (cleaned_lines t)) ''.'')"
    then show "length answer \<le> 329"
      using recovery_answer_caps [of t "strip q"] r a by blast
  }
next
  assume n: "\<not> has_raw_data t \<and> count t ''Item Name'' = 0 \<and> count t ''Title:'' = 0
         \<and> count t ''This dish'' \<le> 3 \<and> count t ''which means'' \<le> 2
         \<and> count t ''typically consists'' \<le> 2"
  {
    assume d: "2 < count t ''The item'' \<or> 5 < count t [CHR '' '', bullet, CHR '' '']"
    have "post_process (candidate_text resp) (strip q)
        = Inr (if 2 < length (split t ''. '') then first_sentences 2 t else t)"
      using assms(6) n d by (auto simp: post_process_def Let_def)
    then have a: "answer = (if 2 < length (split t ''. '') then first_sentences 2 t else t)"
      unfolding assms(7) by (rule grounded_answer [OF assms(1-5)])
    show "length (split answer ''. '') \<le> 2"
      using a first_sentences_2_count [of t] by (auto split: if_splits)
    show "answer = t \<or> answer = first_sentences 2 t"
      using a by (auto split: if_splits)
  }
  {
    assume d: "\<not> (2 < count t ''The item'' \<or> 5 < count t [CHR '' '', bullet, CHR '' ''])"
    have "post_process (candidate_text resp) (strip q) = Inr t"
      using assms(6) n d by (auto simp: post_process_def Let_def)
    then show "answer = t"
      unfolding assms(7) by (rule grounded_answer [OF assms(1-5)])
  }
qed

theorem grounded_answer_caps_witness:
  "length (split (fst (query_reads (llm_says ''Hi'') (Some (index_answering dated_sentences))
          (Some (index_answering dated_sentences)) ''what is on the menu'')) ''. '') \<le> 2
   \<and> length (split (fst (query_reads (llm_says ''Hi'') (Some (index_answering dump_answer))
          (Some (index_answering dump_answer)) ''what is on the menu'')) ''. '') \<le> 2
   \<and> fst (query_reads (llm_says ''Hi'') (Some (index_answering long_answer))
          (Some (index_answering long_answer)) ''tell me about the kitchen'')
       = long_answer"
proof -
  have ne: "dated_sentences \<noteq> []" "dump_answer \<noteq> []" "long_answer \<noteq> []"
    by (simp_all add: dated_sentences_def dump_answer_def long_answer_def)
  have len: "3 \<le> length ''what is on the menu''" "3 \<le> length ''tell me about the kitchen''"
    by simp_all
  note a = grounded_answer_caps [where llm_complete = "llm_says ''Hi''",
      of "''what is on the menu''" "index_answering dated_sentences"
         "[\<lparr>score = Some (Finite (1 / 2))\<rparr>]" "index_answering dated_sentences"
         "\<lparr>response = Some dated_sentences, str = dated_sentences\<rparr>" dated_sentences,
      OF _ _ _ _ _ _ refl]
  note b = grounded_answer_caps [where llm_complete = "llm_says ''Hi''",
      of "''what is on the menu''" "index_answering dump_answer"
         "[\<lparr>score = Some (Finite (1 / 2))\<rparr>]" "index_answering dump_answer"
         "\<lparr>response = Some dump_answer, str = dump_answer\<rparr>" dump_answer,
      OF _ _ _ _ _ _ refl]
  note c = grounded_answer_caps [where llm_complete = "llm_says ''Hi''",
      of "''tell me about the kitchen''" "index_answering long_answer"
         "[\<lparr>score = Some (Finite (1 / 2))\<rparr>]" "index_answering long_answer"
         "\<lparr>response = Some long_answer, str = long_answer\<rparr>" long_answer, OF _ _ _ _ _ _ refl]
  have 1: "length (split (fst (query_reads (llm_says ''Hi'') (Some (index_answering dated_sentences))
          (Some (index_answering dated_sentences)) ''what is on the menu'')) ''. '') \<le> 2"
    using a dated_sentences_facts menu_query len(1) index_answering_calls ne(1) by simp
  have 2: "length (split (fst (query_reads (llm_says ''Hi'') (Some (index_answering dump_answer))
          (Some (index_answering dump_answer)) ''what is on the menu'')) ''. '') \<le> 2"
    using b dump_answer_facts(1-7) menu_query len(1) index_answering_calls ne(2) by simp
  have 3: "fst (query_reads (llm_says ''Hi'') (Some (index_answering long_answer))
          (Some (index_answering long_answer)) ''tell me about the kitchen'')
       = long_answer"
    using c long_answer_facts(3-10) kitchen_query len(2) index_answering_calls ne(3) by simp
  show ?thesis using 1 2 3 by simp
qed

text \<open>
  Claim C6 as the specification states it fails: a candidate of five sentences and
  267 characters without a marker of any branch is the answer, uncut.
\<close>

theorem long_answer_is_not_capped:
  "fst (query (llm_says ''Hi'') (Some (index_answering long_answer)) ''tell me about the kitchen'')
     = long_answer
   \<and> length long_answer = 267
   \<and> length (split long_answer ''. '') = 5"
proof -
  have "long_answer \<noteq> []" and "length long_answer = 267"
    by (simp_all add: long_answer_def)
  then show ?thesis
    by (simp add: query_def index_answering_grounded kitchen_query long_answer_facts)
qed

section \<open>A query while a build publishes\<close>

text \<open>The reads of the handle that each path of a query depends on.\<close>

lemma query_reads_unread:
  "is_greeting (strip q) \<or> length (strip q) < 3
   \<Longrightarrow> query_reads llm i1 i2 q = query_reads llm j1 j2 q"
  by (auto simp: query_reads_def query_body_def Let_def)

lemma query_reads_first_read:
  assumes "i1 = None \<or> (\<exists>idx. i1 = Some idx
             \<and> ((\<exists>e. retrieve idx (strip q) = Inl e)
                  \<or> (\<exists>ns. retrieve idx (strip q) = Inr ns \<and> no_context ns)))"
  shows "query_reads llm i1 i2 q = query_reads llm i1 j2 q"
proof (cases "is_greeting (strip q) \<or> length (strip q) < 3")
  case True
  then show ?thesis by (rule query_reads_unread)
next
  case False
  then have g: "\<not> is_greeting (strip q)" and l: "\<not> length (strip q) < 3" by auto
  from assms show ?thesis
  proof (elim disjE exE conjE)
    assume "i1 = None"
    then show ?thesis using query_body_paths(3) [OF g l] by (simp add: query_reads_def)
  next
    fix idx e
    assume "i1 = Some idx" "retrieve idx (strip q) = Inl e"
    then show ?thesis using query_body_paths(4) [OF g l] by (simp add: query_reads_def)
  next
    fix idx ns
    assume a: "i1 = Some idx" "retrieve idx (strip q) = Inr ns" "no_context ns"
    show ?thesis
    proof (cases "is_order_related (strip q)")
      case True
      then show ?thesis
        using a query_body_paths(5) [OF g l a(2,3)] by (simp add: query_reads_def)
    next
      case False
      show ?thesis
      proof (cases "llm (fallback_prompt (strip q))")
        case (Inl e)
        then show ?thesis
          using a query_body_paths(6) [where llm = llm, OF g l a(2,3) False]
          by (simp add: query_reads_def)
      next
        case (Inr t)
        then show ?thesis
          using a query_body_paths(7) [where llm = llm, OF g l a(2,3) False]
          by (simp add: query_reads_def)
      qed
    qed
  qed
qed

lemma query_reads_second_read:
  assumes "\<not> is_greeting (strip q)" and "3 \<le> length (strip q)"
    and "retrieve old (strip q) = Inr ns" and "\<not> no_context ns"
  shows "query_reads llm (Some old) (Some new) q
           = (case engine_query new (strip q) of
                Inl e \<Rightarrow> error_reply e
              | Inr resp \<Rightarrow>
                  (case post_process (candidate_text resp) (strip q) of
                     Inl e \<Rightarrow> error_reply e
                   | Inr answer \<Rightarrow> answer),
              [Retrieve (strip q), EngineQuery (strip q)])"
  using assms by (simp add: query_reads_def query_body_def Let_def split: sum.splits)

lemma naan_query:
  "strip ''do you have naan'' = ''do you have naan''"
  "\<not> is_greeting ''do you have naan''"
  by code_simp+

lemma naan_answers:
  "post_process ''Naan is on the menu today'' ''do you have naan''
     = Inr ''Naan is on the menu today''"
  "post_process ''Naan is sold out today'' ''do you have naan''
     = Inr ''Naan is sold out today''"
  by code_simp+

text \<open>
  Claim C9, as the code has it. A query keeps no reference to the published generation:
  it reads the handle \<^verbatim>\<open>self._index\<close> where it needs it, at the retrieval step
  and once more at the generation step. A greeting and a query of fewer than three
  characters are answered before any read, so that their answer and calls depend on no
  generation. A query that finds no handle at the retrieval step, or whose retrieval
  raises or gives no context, is answered after the first read alone: what is published
  at the generation step does not change it. A grounded query takes the decision of the
  gate from the generation read at the retrieval step and its answer from the generation
  read at the generation step, which is another generation when a build publishes
  between the two reads.
\<close>

theorem query_reads_handle_per_step:
  "(is_greeting (strip q) \<or> length (strip q) < 3 \<longrightarrow>
      query_reads llm_complete i1 i2 q = query_reads llm_complete j1 j2 q)
   \<and> (i1 = None \<or> (\<exists>idx. i1 = Some idx
             \<and> ((\<exists>e. retrieve idx (strip q) = Inl e)
                  \<or> (\<exists>ns. retrieve idx (strip q) = Inr ns \<and> no_context ns))) \<longrightarrow>
      query_reads llm_complete i1 i2 q = query_reads llm_complete i1 j2 q)
   \<and> (\<not> is_greeting (strip q) \<and> 3 \<le> length (strip q)
        \<and> retrieve old (strip q) = Inr retrieved_nodes \<and> \<not> no_context retrieved_nodes \<longrightarrow>
      query_reads llm_complete (Some old) (Some new) q
        = (case engine_query new (strip q) of
             Inl e \<Rightarrow> error_reply e
           | Inr resp \<Rightarrow>
               (case post_process (candidate_text resp) (strip q) of
                  Inl e \<Rightarrow> error_reply e
                | Inr answer \<Rightarrow> answer),
           [Retrieve (strip q), EngineQuery (strip q)]))"
  using query_reads_unread [of q llm_complete i1 i2 j1 j2]
    query_reads_first_read [of i1 q llm_complete i2 j2]
    query_reads_second_read [of q old retrieved_nodes llm_complete new]
  by blast

theorem query_reads_handle_per_step_witness:
  "query_reads (llm_says ''Hi'') None None ''Hello!''
     = query_reads (llm_says ''Hi'') (Some empty_index) (Some weak_index) ''Hello!''
   \<and> query_reads (llm_says ''Hi'') (Some empty_index) None ''what's on the menu''
     = query_reads (llm_says ''Hi'') (Some empty_index) (Some weak_index) ''what's on the menu''
   \<and> query_reads (llm_says ''Hi'') (Some (index_answering ''Naan is on the menu today''))
        (Some (index_answering ''Naan is sold out today'')) ''do you have naan''
     = (''Naan is sold out today'', [Retrieve ''do you have naan'', EngineQuery ''do you have naan''])"
proof -
  have g: "is_greeting (strip ''Hello!'')"
    by (simp add: is_greeting_def strip_hello hello_clean greetings_def)
  have 1: "query_reads (llm_says ''Hi'') None None ''Hello!''
     = query_reads (llm_says ''Hi'') (Some empty_index) (Some weak_index) ''Hello!''"
    using query_reads_handle_per_step [of "''Hello!''" "llm_says ''Hi''" None None
        "Some empty_index" "Some weak_index"] g
    by blast
  have e: "retrieve empty_index (strip ''what's on the menu'') = Inr []" "no_context []"
    by (simp_all add: empty_index_def no_context_def)
  have 2: "query_reads (llm_says ''Hi'') (Some empty_index) None ''what's on the menu''
     = query_reads (llm_says ''Hi'') (Some empty_index) (Some weak_index) ''what's on the menu''"
    using query_reads_handle_per_step [of "''what's on the menu''" "llm_says ''Hi''"
        "Some empty_index" None _ "Some weak_index"] e
    by blast
  have n: "retrieve (index_answering ''Naan is on the menu today'') (strip ''do you have naan'')
        = Inr [\<lparr>score = Some (Finite (1 / 2))\<rparr>]"
    "engine_query (index_answering ''Naan is sold out today'') (strip ''do you have naan'')
        = Inr \<lparr>response = Some ''Naan is sold out today'', str = ''Naan is sold out today''\<rparr>"
    "candidate_text \<lparr>response = Some ''Naan is sold out today'', str = ''Naan is sold out today''\<rparr>
        = ''Naan is sold out today''"
    "\<not> no_context [\<lparr>score = Some (Finite (1 / 2))\<rparr>]"
    using threshold_bounds(3)
    by (simp_all add: index_answering_def candidate_text_def no_context_def score_or_0_def)
  have 3: "query_reads (llm_says ''Hi'') (Some (index_answering ''Naan is on the menu today''))
        (Some (index_answering ''Naan is sold out today'')) ''do you have naan''
     = (''Naan is sold out today'', [Retrieve ''do you have naan'', EngineQuery ''do you have naan''])"
    using query_reads_handle_per_step [of "''do you have naan''" "llm_says ''Hi''" _ _ _ _
        "index_answering ''Naan is on the menu today''" "[\<lparr>score = Some (Finite (1 / 2))\<rparr>]"
        "index_answering ''Naan is sold out today''"] n naan_query naan_answers(2)
    by simp
  show ?thesis using 1 2 3 by blast
qed

text \<open>
  Claim C9 as the specification states it fails. On the generation that is published
  when the query starts, the answer is that naan is on the menu. A rebuild that
  publishes another generation between the two reads of the same query changes its
  answer.
\<close>

theorem rebuild_changes_in_flight_query:
  "fst (query (llm_says ''Hi'')
          (index (manager_serving (index_answering ''Naan is on the menu today'')))
          ''do you have naan'')
     = ''Naan is on the menu today''
   \<and> fst (query_reads (llm_says ''Hi'')
          (index (manager_serving (index_answering ''Naan is on the menu today'')))
          (index (snd (build_index (run_publishing (index_answering ''Naan is sold out today''))
                         (manager_serving (index_answering ''Naan is on the menu today'')))))
          ''do you have naan'')
     = ''Naan is sold out today''"
  by (simp add: query_def index_answering_grounded naan_query naan_answers manager_serving_def
      run_publishing_def build_index_def)

end
